theory Spec2Isabelle
  imports Complex_Main
begin

section \<open>C integer types and Python exceptions\<close>

text \<open>
  The module \<^verbatim>\<open>dtw_cc.pyx\<close> is Cython: variables declared with \<^verbatim>\<open>cdef\<close> and typed
  arguments are C integers, everything else is a Python object. The widths of
  \<^verbatim>\<open>long\<close> and \<^verbatim>\<open>Py_ssize_t\<close> depend on the data model of the platform the module is
  compiled for, so the data model is a parameter of the embedding. \<^verbatim>\<open>int\<close> has 32 bits in
  all three data models CPython is built for.
\<close>

datatype data_model = ILP32 | LLP64 | LP64

fun long_bits :: "data_model \<Rightarrow> nat" where
  "long_bits ILP32 = 32"
| "long_bits LLP64 = 32"
| "long_bits LP64 = 64"

fun ssize_bits :: "data_model \<Rightarrow> nat" where
  "ssize_bits ILP32 = 32"
| "ssize_bits LLP64 = 64"
| "ssize_bits LP64 = 64"

definition int_bits :: nat where
  "int_bits = 32"

text \<open>
  A signed C integer of \<open>w\<close> bits holds the values \<open>- 2 ^ (w - 1) .. 2 ^ (w - 1) - 1\<close>.
  C arithmetic that leaves this range is written out as two's complement wrap-around
  (extension modules are compiled with \<^verbatim>\<open>-fwrapv\<close>, and the other compilers behave the
  same on these operations).
\<close>

definition fits_signed :: "nat \<Rightarrow> int \<Rightarrow> bool" where
  "fits_signed w v = (- (2 ^ (w - 1)) \<le> v \<and> v < 2 ^ (w - 1))"

definition wrap_signed :: "nat \<Rightarrow> int \<Rightarrow> int" where
  "wrap_signed w v = (v + 2 ^ (w - 1)) mod 2 ^ w - 2 ^ (w - 1)"

datatype py_error =
  OverflowError | TypeError | ValueError | IndexError | AttributeError

text \<open>
  Assigning a Python integer to a C integer variable of \<open>w\<close> bits: Cython converts the
  value and raises \<^verbatim>\<open>OverflowError\<close> when it does not fit.
\<close>

definition as_c_signed :: "nat \<Rightarrow> int \<Rightarrow> py_error + int" where
  "as_c_signed w v = (if fits_signed w v then Inr v else Inl OverflowError)"

section \<open>DTWBlock\<close>

text \<open>
  \<^verbatim>\<open>DTWBlock\<close> wraps the C struct with the four bounds of a block. The properties
  \<^verbatim>\<open>rb\<close>, \<^verbatim>\<open>re\<close>, \<^verbatim>\<open>cb\<close>, \<^verbatim>\<open>ce\<close> hand the fields back as Python integers, so the code
  that reads \<^verbatim>\<open>block.rb\<close> computes with unbounded integers. The struct is declared in
  \<^verbatim>\<open>dtaidistancec.pxd\<close>, which is not among the sources; its fields are taken to hold
  every value of the C \<^verbatim>\<open>int\<close>s \<^verbatim>\<open>distance_matrix\<close> stores in them.
\<close>

record DTWBlock =
  rb :: int
  re :: int
  cb :: int
  ce :: int

definition re_set :: "DTWBlock \<Rightarrow> int \<Rightarrow> DTWBlock" where
  "re_set block v = block\<lparr>re := v\<rparr>"

definition ce_set :: "DTWBlock \<Rightarrow> int \<Rightarrow> DTWBlock" where
  "ce_set block v = block\<lparr>ce := v\<rparr>"

section \<open>distance\_matrix\_length\<close>

text \<open>
  \<^verbatim>\<open>range(a, b)\<close> over Python integers.
\<close>

definition py_range :: "int \<Rightarrow> int \<Rightarrow> int list" where
  "py_range a b = [a..b - 1]"

text \<open>
  The loop of the restricted branch,
  \<^verbatim>\<open>for ri in range(block.rb, block.re)\<close>. The loop variable \<^verbatim>\<open>ri\<close> is not declared
  (the declared \<^verbatim>\<open>ir\<close> is never used), so it is a Python integer, and so is the value
  added to \<^verbatim>\<open>llength\<close>: each \<^verbatim>\<open>llength += ...\<close> adds as Python integers and converts the
  sum back to the C \<^verbatim>\<open>long\<close>, which raises \<^verbatim>\<open>OverflowError\<close> when the sum does not fit.
  \<open>lw\<close> is the width of \<^verbatim>\<open>long\<close>.
\<close>

fun rows_loop :: "nat \<Rightarrow> DTWBlock \<Rightarrow> int list \<Rightarrow> int \<Rightarrow> py_error + int" where
  "rows_loop lw block [] llength = Inr llength"
| "rows_loop lw block (ri # ris) llength =
     (if cb block \<le> ri then
        (if ce block > ri then
           (case as_c_signed lw (llength + (ce block - ri - 1)) of
              Inl e \<Rightarrow> Inl e
            | Inr l \<Rightarrow> rows_loop lw block ris l)
         else rows_loop lw block ris llength)
      else
        (if ce block > ri then
           (case as_c_signed lw (llength + (ce block - cb block)) of
              Inl e \<Rightarrow> Inl e
            | Inr l \<Rightarrow> rows_loop lw block ris l)
         else rows_loop lw block ris llength))"

text \<open>
  The unrestricted branch computes with C integers. \<^verbatim>\<open>nb_series\<close> is a C \<^verbatim>\<open>int\<close>; Cython
  types the literal \<^verbatim>\<open>2\<close> as \<^verbatim>\<open>long\<close>, so \<^verbatim>\<open>%\<close> and \<^verbatim>\<open>/\<close> are the \<^verbatim>\<open>long\<close> operations with
  Python's rounding (towards minus infinity, as \<open>div\<close> and \<open>mod\<close> on \<open>int\<close>), and each
  product has a \<^verbatim>\<open>long\<close> factor and is a \<^verbatim>\<open>long\<close> multiplication. \<^verbatim>\<open>nb_series - 1\<close> is a
  subtraction of C \<^verbatim>\<open>int\<close>s.
\<close>

definition full_triangle :: "nat \<Rightarrow> int \<Rightarrow> int" where
  "full_triangle lw nb_series =
     (if nb_series mod 2 = 0
      then wrap_signed lw ((nb_series div 2) * wrap_signed int_bits (nb_series - 1))
      else wrap_signed lw (nb_series * (wrap_signed int_bits (nb_series - 1) div 2)))"

text \<open>
  \<^verbatim>\<open>distance_matrix_length(DTWBlock block, int nb_series)\<close>. The result is
  \<^item> \<open>Inl e\<close>: the exception \<open>e\<close> was raised (by the conversion of the argument to
    \<^verbatim>\<open>int\<close>, of \<^verbatim>\<open>block.rb\<close> to \<^verbatim>\<open>Py_ssize_t\<close>, or of a sum to \<^verbatim>\<open>long\<close>);
  \<^item> \<open>Inr None\<close>: the line \<^verbatim>\<open>ERROR: Length of array needed ...\<close> was printed and the
    function returned \<^verbatim>\<open>None\<close>;
  \<^item> \<open>Inr (Some k)\<close>: the function returned the integer \<open>k\<close>.
\<close>

definition distance_matrix_length ::
  "data_model \<Rightarrow> DTWBlock \<Rightarrow> int \<Rightarrow> py_error + int option" where
  "distance_matrix_length P block n =
     (case as_c_signed int_bits n of
        Inl e \<Rightarrow> Inl e
      | Inr nb_series \<Rightarrow>
          (case as_c_signed (ssize_bits P) (rb block) of
             Inl e \<Rightarrow> Inl e
           | Inr brb \<Rightarrow>
               (case (if re block = 0 \<and> ce block = 0
                      then Inr (full_triangle (long_bits P) nb_series)
                      else rows_loop (long_bits P) block
                             (py_range (rb block) (re block)) 0) of
                  Inl e \<Rightarrow> Inl e
                | Inr llength \<Rightarrow>
                    (let slength = wrap_signed (ssize_bits P) llength
                     in if slength < 0 then Inr None else Inr (Some slength)))))"

section \<open>DTWSettings\<close>

text \<open>
  Modelled from the spec: the C struct behind \<^verbatim>\<open>DTWSettings\<close> is declared in
  \<^verbatim>\<open>dtaidistancec.pxd\<close>, which is not among the sources. The types of its six fields
  follow section 3 of the specification: \<^verbatim>\<open>window\<close>, \<^verbatim>\<open>max_length_diff\<close> and \<^verbatim>\<open>psi\<close> are
  integers (C \<^verbatim>\<open>int\<close>), \<^verbatim>\<open>max_dist\<close>, \<^verbatim>\<open>max_step\<close> and \<^verbatim>\<open>penalty\<close> are reals.
\<close>

record DTWSettings =
  window :: int
  max_dist :: real
  max_step :: real
  max_length_diff :: int
  penalty :: real
  psi :: int

text \<open>
  The keyword dictionary of \<^verbatim>\<open>DTWSettings.__init__\<close>, read at the six keys the
  constructor looks up (any other key is ignored by the code). A key is absent, bound to
  \<^verbatim>\<open>None\<close>, or bound to a number: a Python integer for the integer options, a real for
  the others.
\<close>

datatype 'a kwarg = Absent | IsNone | Given 'a

record kwargs =
  kw_window :: "int kwarg"
  kw_max_dist :: "real kwarg"
  kw_max_step :: "real kwarg"
  kw_max_length_diff :: "int kwarg"
  kw_penalty :: "real kwarg"
  kw_psi :: "int kwarg"

definition no_kwargs :: kwargs where
  "no_kwargs = \<lparr>kw_window = Absent, kw_max_dist = Absent, kw_max_step = Absent,
     kw_max_length_diff = Absent, kw_penalty = Absent, kw_psi = Absent\<rparr>"

text \<open>
  One \<^verbatim>\<open>if "key" in kwargs: ...\<close> block of the constructor, for an integer field and
  for a real field. \<open>upd\<close> stores a value into the field. Storing a Python integer into
  a C \<^verbatim>\<open>int\<close> field raises \<^verbatim>\<open>OverflowError\<close> when it does not fit.
\<close>

definition set_int_option ::
  "int kwarg \<Rightarrow> (int \<Rightarrow> DTWSettings \<Rightarrow> DTWSettings) \<Rightarrow> DTWSettings \<Rightarrow> py_error + DTWSettings" where
  "set_int_option arg upd s =
     (case arg of
        Absent \<Rightarrow> Inr s
      | IsNone \<Rightarrow> Inr (upd 0 s)
      | Given v \<Rightarrow> (case as_c_signed int_bits v of Inl e \<Rightarrow> Inl e | Inr i \<Rightarrow> Inr (upd i s)))"

definition set_real_option ::
  "real kwarg \<Rightarrow> (real \<Rightarrow> DTWSettings \<Rightarrow> DTWSettings) \<Rightarrow> DTWSettings \<Rightarrow> py_error + DTWSettings" where
  "set_real_option arg upd s =
     (case arg of
        Absent \<Rightarrow> Inr s
      | IsNone \<Rightarrow> Inr (upd 0 s)
      | Given v \<Rightarrow> Inr (upd v s))"

text \<open>
  \<^verbatim>\<open>DTWSettings.__init__\<close> with its keyword arguments. \<open>defaults\<close> is what the C function
  \<^verbatim>\<open>dtw_default_settings()\<close> returns; the function is not among the sources, so its
  result is a parameter.
\<close>

definition DTWSettings_init :: "DTWSettings \<Rightarrow> kwargs \<Rightarrow> py_error + DTWSettings" where
  "DTWSettings_init defaults kw =
     (case set_int_option (kw_window kw) (\<lambda>v s. s\<lparr>window := v\<rparr>) defaults of
        Inl e \<Rightarrow> Inl e
      | Inr s1 \<Rightarrow>
     (case set_real_option (kw_max_dist kw) (\<lambda>v s. s\<lparr>max_dist := v\<rparr>) s1 of
        Inl e \<Rightarrow> Inl e
      | Inr s2 \<Rightarrow>
     (case set_real_option (kw_max_step kw) (\<lambda>v s. s\<lparr>max_step := v\<rparr>) s2 of
        Inl e \<Rightarrow> Inl e
      | Inr s3 \<Rightarrow>
     (case set_int_option (kw_max_length_diff kw) (\<lambda>v s. s\<lparr>max_length_diff := v\<rparr>) s3 of
        Inl e \<Rightarrow> Inl e
      | Inr s4 \<Rightarrow>
     (case set_real_option (kw_penalty kw) (\<lambda>v s. s\<lparr>penalty := v\<rparr>) s4 of
        Inl e \<Rightarrow> Inl e
      | Inr s5 \<Rightarrow>
          set_int_option (kw_psi kw) (\<lambda>v s. s\<lparr>psi := v\<rparr>) s5)))))"

text \<open>
  The settings with every option 0 (unconstrained), used for \<open>defaults\<close> in examples.
\<close>

definition zero_settings :: DTWSettings where
  "zero_settings = \<lparr>window = 0, max_dist = 0, max_step = 0, max_length_diff = 0,
     penalty = 0, psi = 0\<rparr>"

section \<open>distance\<close>

text \<open>
  \<^verbatim>\<open>distance(double[:] s1, double[:] s2, **kwargs)\<close>. A sequence is the list of the
  numbers in its buffer. The C function \<^verbatim>\<open>dtw_distance\<close> is not among the sources and
  is a parameter; \<open>'r\<close> is the type of the double it returns (a number or an infinity).
  The module sets no compiler directive, so Cython checks the bounds of \<^verbatim>\<open>s1[0]\<close> and
  \<^verbatim>\<open>s2[0]\<close> (also under \<^verbatim>\<open>&\<close>) and raises \<^verbatim>\<open>IndexError\<close> for a buffer of length 0.
\<close>

definition distance ::
  "(real list \<Rightarrow> real list \<Rightarrow> DTWSettings \<Rightarrow> 'r) \<Rightarrow> DTWSettings \<Rightarrow>
   real list \<Rightarrow> real list \<Rightarrow> kwargs \<Rightarrow> py_error + 'r" where
  "distance dtw_distance defaults s1 s2 kw =
     (case DTWSettings_init defaults kw of
        Inl e \<Rightarrow> Inl e
      | Inr settings \<Rightarrow>
          if s1 = [] then Inl IndexError
          else if s2 = [] then Inl IndexError
          else Inr (dtw_distance s1 s2 settings))"

section \<open>Sequence collections\<close>

text \<open>
  The Python objects \<^verbatim>\<open>distance_matrix\<close> and \<^verbatim>\<open>dtw_series_from_data\<close> tell apart:
  \<^item> \<open>NdArray1\<close>, \<open>NdArray2\<close>: a one- and a two-dimensional C-contiguous array of doubles
    (with the buffer interface and the attribute \<^verbatim>\<open>ctypes\<close>), given by its numbers, a
    two-dimensional one row by row;
  \<^item> \<open>PyList\<close>, \<open>PyTuple\<close>, \<open>PySet\<close>: the built-in collections, given by their elements;
  \<^item> \<open>SeriesPointers\<close>, \<open>SeriesMatrix\<close>: an instance of \<^verbatim>\<open>DTWSeriesPointers\<close> and of
    \<^verbatim>\<open>DTWSeriesMatrix\<close>, given by the sequences it points to;
  \<^item> \<open>SeriesContainer n d\<close>: an object whose class is named \<^verbatim>\<open>SeriesContainer\<close>; the class
    is not among the sources, so the object is given by what the code asks of it: its
    length \<open>n\<close> and the object \<open>d\<close> its method \<^verbatim>\<open>c_data()\<close> returns;
  \<^item> \<open>PySized n\<close>: any other object with a length \<open>n\<close>, such as a dictionary or a string
    (no buffer interface, no \<^verbatim>\<open>ctypes\<close>);
  \<^item> \<open>PyObject\<close>: any other object (no length, no buffer interface, no \<^verbatim>\<open>ctypes\<close>).
\<close>

datatype pyobj =
    NdArray1 "real list"
  | NdArray2 "real list list"
  | PyList "pyobj list"
  | PyTuple "pyobj list"
  | PySet "pyobj list"
  | SeriesPointers "real list list"
  | SeriesMatrix "real list list"
  | SeriesContainer nat pyobj
  | PySized nat
  | PyObject

text \<open>
  \<^verbatim>\<open>len(cur)\<close>. The classes \<^verbatim>\<open>DTWSeriesPointers\<close> and \<^verbatim>\<open>DTWSeriesMatrix\<close> define no
  \<^verbatim>\<open>__len__\<close>.
\<close>

fun py_len :: "pyobj \<Rightarrow> py_error + int" where
  "py_len (NdArray1 xs) = Inr (int (length xs))"
| "py_len (NdArray2 rows) = Inr (int (length rows))"
| "py_len (PyList xs) = Inr (int (length xs))"
| "py_len (PyTuple xs) = Inr (int (length xs))"
| "py_len (PySet xs) = Inr (int (length xs))"
| "py_len (SeriesPointers ss) = Inl TypeError"
| "py_len (SeriesMatrix rows) = Inl TypeError"
| "py_len (SeriesContainer n d) = Inr (int n)"
| "py_len (PySized n) = Inr (int n)"
| "py_len PyObject = Inl TypeError"

text \<open>
  \<^verbatim>\<open>DTWSeriesMatrix(data)\<close>: the argument is converted to a memory view
  \<^verbatim>\<open>double[:, ::1]\<close>. A buffer of another dimension raises \<^verbatim>\<open>ValueError\<close>, an object
  without the buffer interface \<^verbatim>\<open>TypeError\<close>.
\<close>

fun DTWSeriesMatrix_cinit :: "pyobj \<Rightarrow> py_error + real list list" where
  "DTWSeriesMatrix_cinit (NdArray2 rows) = Inr rows"
| "DTWSeriesMatrix_cinit (NdArray1 xs) = Inl ValueError"
| "DTWSeriesMatrix_cinit other = Inl TypeError"

text \<open>
  One round of the loop of \<^verbatim>\<open>dtw_series_from_data\<close>: \<^verbatim>\<open>data[i].ctypes.data\<close> and
  \<^verbatim>\<open>len(data[i])\<close> give the pointer and the length of sequence \<open>i\<close>. An element without
  the attribute \<^verbatim>\<open>ctypes\<close> raises \<^verbatim>\<open>AttributeError\<close>. Of a two-dimensional array the
  pointer addresses the first number and the length is the number of rows.
\<close>

fun series_of_element :: "pyobj \<Rightarrow> py_error + real list" where
  "series_of_element (NdArray1 xs) = Inr xs"
| "series_of_element (NdArray2 rows) = Inr (take (length rows) (concat rows))"
| "series_of_element other = Inl AttributeError"

fun series_of_elements :: "pyobj list \<Rightarrow> py_error + real list list" where
  "series_of_elements [] = Inr []"
| "series_of_elements (x # xs) =
     (case series_of_element x of
        Inl e \<Rightarrow> Inl e
      | Inr s \<Rightarrow>
          (case series_of_elements xs of
             Inl e \<Rightarrow> Inl e
           | Inr ss \<Rightarrow> Inr (s # ss)))"

text \<open>
  \<^verbatim>\<open>dtw_series_from_data(data)\<close>. A list, set or tuple becomes a
  \<^verbatim>\<open>DTWSeriesPointers\<close>; a set cannot be indexed, so \<^verbatim>\<open>data[0]\<close> raises \<^verbatim>\<open>TypeError\<close>
  unless the set is empty and the loop body never runs. Anything else goes to
  \<^verbatim>\<open>DTWSeriesMatrix(data)\<close>, whose \<^verbatim>\<open>ValueError\<close> is caught and raised again as a
  \<^verbatim>\<open>ValueError\<close> with the message of the module.
\<close>

fun dtw_series_from_data :: "pyobj \<Rightarrow> py_error + pyobj" where
  "dtw_series_from_data (PyList xs) =
     (case series_of_elements xs of Inl e \<Rightarrow> Inl e | Inr ss \<Rightarrow> Inr (SeriesPointers ss))"
| "dtw_series_from_data (PyTuple xs) =
     (case series_of_elements xs of Inl e \<Rightarrow> Inl e | Inr ss \<Rightarrow> Inr (SeriesPointers ss))"
| "dtw_series_from_data (PySet xs) =
     (if xs = [] then Inr (SeriesPointers []) else Inl TypeError)"
| "dtw_series_from_data data =
     (case DTWSeriesMatrix_cinit data of
        Inl e \<Rightarrow> (if e = ValueError then Inl ValueError else Inl e)
      | Inr rows \<Rightarrow> Inr (SeriesMatrix rows))"

section \<open>distance\_matrix\<close>

text \<open>
  The argument \<^verbatim>\<open>block\<close>: \<^verbatim>\<open>None\<close>, a number, or a pair of pairs of Python integers
  \<^verbatim>\<open>((rb, re), (cb, ce))\<close>.
\<close>

datatype block_arg =
    Block_none
  | Block_number real
  | Block_pairs "(int \<times> int) \<times> (int \<times> int)"

text \<open>
  The head of \<^verbatim>\<open>distance_matrix\<close>: the four C \<^verbatim>\<open>int\<close>s \<^verbatim>\<open>block_rb\<close>, \<^verbatim>\<open>block_re\<close>,
  \<^verbatim>\<open>block_cb\<close>, \<^verbatim>\<open>block_ce\<close> start at 0 and are read from the argument
  \<^verbatim>\<open>if block is not None and block != 0.0\<close>. A number other than 0 cannot be indexed:
  \<^verbatim>\<open>block[0]\<close> raises \<^verbatim>\<open>TypeError\<close>.
\<close>

definition read_block :: "block_arg \<Rightarrow> py_error + DTWBlock" where
  "read_block block =
     (case block of
        Block_none \<Rightarrow> Inr \<lparr>rb = 0, re = 0, cb = 0, ce = 0\<rparr>
      | Block_number x \<Rightarrow>
          if x = 0 then Inr \<lparr>rb = 0, re = 0, cb = 0, ce = 0\<rparr> else Inl TypeError
      | Block_pairs p \<Rightarrow>
          (case as_c_signed int_bits (fst (fst p)) of Inl e \<Rightarrow> Inl e | Inr block_rb \<Rightarrow>
          (case as_c_signed int_bits (snd (fst p)) of Inl e \<Rightarrow> Inl e | Inr block_re \<Rightarrow>
          (case as_c_signed int_bits (fst (snd p)) of Inl e \<Rightarrow> Inl e | Inr block_cb \<Rightarrow>
          (case as_c_signed int_bits (snd (snd p)) of Inl e \<Rightarrow> Inl e | Inr block_ce \<Rightarrow>
             Inr \<lparr>rb = block_rb, re = block_re, cb = block_cb, ce = block_ce\<rparr>)))))"

text \<open>
  What a call of \<^verbatim>\<open>distance_matrix\<close> does that can be seen from outside, in order:
  the error line \<^verbatim>\<open>distance_matrix_length\<close> prints, the resizing of the array \<^verbatim>\<open>dists\<close>
  to a length, and the call of one of the two C routines (which are not among the
  sources) with the sequences, the length of the output buffer, the block and the
  settings it is handed.
\<close>

datatype event =
    Printed_error
  | Resized int
  | Called_dtw_distances_ptrs "real list list" int DTWBlock DTWSettings
  | Called_dtw_distances_matrix "real list list" int DTWBlock DTWSettings

fun is_kernel_call :: "event \<Rightarrow> bool" where
  "is_kernel_call (Called_dtw_distances_ptrs ss l b s) = True"
| "is_kernel_call (Called_dtw_distances_matrix ss l b s) = True"
| "is_kernel_call ev = False"

fun is_resize :: "event \<Rightarrow> bool" where
  "is_resize (Resized l) = True"
| "is_resize ev = False"

text \<open>
  The dispatch on the type of \<^verbatim>\<open>cur\<close> (the first \<^verbatim>\<open>if\<close>/\<^verbatim>\<open>elif\<close>/\<^verbatim>\<open>else\<close>).
\<close>

fun convert_cur :: "pyobj \<Rightarrow> py_error + pyobj" where
  "convert_cur (SeriesMatrix rows) = Inr (SeriesMatrix rows)"
| "convert_cur (SeriesPointers ss) = Inr (SeriesPointers ss)"
| "convert_cur (SeriesContainer n d) = Inr d"
| "convert_cur cur = dtw_series_from_data cur"

text \<open>
  The call of the C routine (the second \<^verbatim>\<open>if\<close>/\<^verbatim>\<open>elif\<close>, which has no \<^verbatim>\<open>else\<close>).
  The matrix routine is handed \<^verbatim>\<open>&matrix._data[0,0]\<close>, whose bounds are checked: a
  matrix with no row or with rows of length 0 raises \<^verbatim>\<open>IndexError\<close>.
\<close>

fun call_kernel ::
  "pyobj \<Rightarrow> int \<Rightarrow> DTWBlock \<Rightarrow> DTWSettings \<Rightarrow> py_error + event list" where
  "call_kernel (SeriesPointers ss) l b s = Inr [Called_dtw_distances_ptrs ss l b s]"
| "call_kernel (SeriesMatrix []) l b s = Inl IndexError"
| "call_kernel (SeriesMatrix ([] # rows)) l b s = Inl IndexError"
| "call_kernel (SeriesMatrix rows) l b s = Inr [Called_dtw_distances_matrix rows l b s]"
| "call_kernel cur l b s = Inr []"

text \<open>
  \<^verbatim>\<open>distance_matrix(cur, block=None, **kwargs)\<close>. The result is the list of events and
  either the exception raised or the length of the array \<^verbatim>\<open>dists\<close> returned. \<^verbatim>\<open>length\<close>
  (here \<open>length_c\<close>) is a C \<^verbatim>\<open>int\<close>: the value \<^verbatim>\<open>distance_matrix_length\<close> returns is
  converted to it, which raises \<^verbatim>\<open>TypeError\<close> for \<^verbatim>\<open>None\<close> and \<^verbatim>\<open>OverflowError\<close> for an
  integer that does not fit. Allocation is taken to succeed.
\<close>

definition distance_matrix ::
  "data_model \<Rightarrow> DTWSettings \<Rightarrow> pyobj \<Rightarrow> block_arg \<Rightarrow> kwargs \<Rightarrow> event list \<times> (py_error + int)" where
  "distance_matrix P defaults cur block kw =
     (case read_block block of Inl e \<Rightarrow> ([], Inl e) | Inr dtwblock \<Rightarrow>
     (case DTWSettings_init defaults kw of Inl e \<Rightarrow> ([], Inl e) | Inr settings \<Rightarrow>
     (case py_len cur of Inl e \<Rightarrow> ([], Inl e) | Inr n \<Rightarrow>
     (case distance_matrix_length P dtwblock n of
        Inl e \<Rightarrow> ([], Inl e)
      | Inr None \<Rightarrow> ([Printed_error], Inl TypeError)
      | Inr (Some l) \<Rightarrow>
     (case as_c_signed int_bits l of Inl e \<Rightarrow> ([], Inl e) | Inr length_c \<Rightarrow>
       (let dtwblock1 = (if re dtwblock = 0 then re_set dtwblock n else dtwblock);
            dtwblock2 = (if ce dtwblock1 = 0 then ce_set dtwblock1 n else dtwblock1)
        in (case convert_cur cur of
              Inl e \<Rightarrow> ([Resized length_c], Inl e)
            | Inr cur' \<Rightarrow>
                (case call_kernel cur' length_c dtwblock2 settings of
                   Inl e \<Rightarrow> ([Resized length_c], Inl e)
                 | Inr calls \<Rightarrow> (Resized length_c # calls, Inr length_c)))))))))"

section \<open>The forms of input\<close>

text \<open>
  An element the pointer form accepts: an array, which has the attribute \<^verbatim>\<open>ctypes\<close>.
\<close>

fun is_buffer :: "pyobj \<Rightarrow> bool" where
  "is_buffer (NdArray1 xs) = True"
| "is_buffer (NdArray2 rows) = True"
| "is_buffer other = False"

text \<open>
  The two forms of a sequence collection the specification names: a collection of
  numeric buffers (the code tests for a list, a set or a tuple) and a two-dimensional
  buffer of uniform row length.
\<close>

fun list_of_buffers :: "pyobj \<Rightarrow> bool" where
  "list_of_buffers (PyList xs) = list_all is_buffer xs"
| "list_of_buffers (PyTuple xs) = list_all is_buffer xs"
| "list_of_buffers (PySet xs) = list_all is_buffer xs"
| "list_of_buffers other = False"

fun uniform_matrix :: "pyobj \<Rightarrow> bool" where
  "uniform_matrix (NdArray2 rows) = True"
| "uniform_matrix other = False"

text \<open>
  The third kind of input the code lets through, by the name of its class.
\<close>

fun named_SeriesContainer :: "pyobj \<Rightarrow> bool" where
  "named_SeriesContainer (SeriesContainer n d) = True"
| "named_SeriesContainer other = False"

text \<open>
  The exceptions an input of the wrong type ends in.
\<close>

definition input_error :: "py_error \<Rightarrow> bool" where
  "input_error e = (e = TypeError \<or> e = ValueError \<or> e = AttributeError)"

section \<open>The kernel, from the specification\<close>

text \<open>
  Modelled from the spec: the C function \<^verbatim>\<open>dtw_distance\<close> (the file \<^verbatim>\<open>dtaidistancec\<close>
  wraps) is not among the sources. What follows is \<^verbatim>\<open>DTWKernel.distance\<close> as section 4.1
  of the specification words it, over the reals. A cost is a \<open>real option\<close>, \<open>None\<close>
  being the unreachable (infinite) cost.
  \<^item> The grid: \<open>cost[0][0] = 0\<close>; \<open>cost[0][j]\<close> and \<open>cost[i][0]\<close> are infinite except
    within the first \<open>psi\<close> indices, where they are 0; otherwise \<open>cost[i][j]\<close> is the
    elementwise distance of \<open>s1[i-1]\<close> and \<open>s2[j-1]\<close> plus the least of \<open>cost[i-1][j]\<close>
    and \<open>cost[i][j-1]\<close>, each with \<open>penalty\<close> added, and \<open>cost[i-1][j-1]\<close>.
  \<^item> A cell outside the band \<open>\<bar>i - j\<bar> \<le> window\<close> (for a window other than 0) is unreachable,
    and so is a cell whose elementwise distance exceeds \<open>max_step\<close> (other than 0).
  \<^item> The elementwise distance is the squared difference; the result is the square root
    of the least cost over the last \<open>psi\<close> cells of the final row and of the final column
    (for \<open>psi = 0\<close> the cell \<open>cost[n1][n2]\<close>).
  \<^item> A length difference beyond \<open>max_length_diff\<close> (other than 0) gives the unreachable
    result at once, and so does a result beyond \<open>max_dist\<close> (other than 0).
\<close>

definition cost_add :: "real \<Rightarrow> real option \<Rightarrow> real option" where
  "cost_add d c = (case c of None \<Rightarrow> None | Some x \<Rightarrow> Some (d + x))"

definition cost_min :: "real option \<Rightarrow> real option \<Rightarrow> real option" where
  "cost_min a b =
     (case a of
        None \<Rightarrow> b
      | Some x \<Rightarrow> (case b of None \<Rightarrow> Some x | Some y \<Rightarrow> Some (min x y)))"

definition cost_min_list :: "real option list \<Rightarrow> real option" where
  "cost_min_list cs = foldr cost_min cs None"

definition elementwise_distance :: "real \<Rightarrow> real \<Rightarrow> real" where
  "elementwise_distance x y = (x - y)\<^sup>2"

definition in_band :: "DTWSettings \<Rightarrow> nat \<Rightarrow> nat \<Rightarrow> bool" where
  "in_band st i j = (window st = 0 \<or> \<bar>int i - int j\<bar> \<le> window st)"

fun warp_cost :: "DTWSettings \<Rightarrow> real list \<Rightarrow> real list \<Rightarrow> nat \<Rightarrow> nat \<Rightarrow> real option" where
  "warp_cost st s1 s2 0 0 = Some 0"
| "warp_cost st s1 s2 0 (Suc j) = (if int (Suc j) \<le> psi st then Some 0 else None)"
| "warp_cost st s1 s2 (Suc i) 0 = (if int (Suc i) \<le> psi st then Some 0 else None)"
| "warp_cost st s1 s2 (Suc i) (Suc j) =
     (if in_band st (Suc i) (Suc j) then
        (if max_step st \<noteq> 0 \<and> max_step st < elementwise_distance (s1 ! i) (s2 ! j) then None
         else cost_add (elementwise_distance (s1 ! i) (s2 ! j))
                (cost_min
                   (cost_min (cost_add (penalty st) (warp_cost st s1 s2 i (Suc j)))
                             (cost_add (penalty st) (warp_cost st s1 s2 (Suc i) j)))
                   (warp_cost st s1 s2 i j)))
      else None)"

definition final_cost :: "DTWSettings \<Rightarrow> real list \<Rightarrow> real list \<Rightarrow> real option" where
  "final_cost st s1 s2 =
     cost_min_list
       (map (\<lambda>j. warp_cost st s1 s2 (length s1) j)
            [length s2 - nat (psi st)..<Suc (length s2)]
        @ map (\<lambda>i. warp_cost st s1 s2 i (length s2))
            [length s1 - nat (psi st)..<Suc (length s1)])"

definition dtw_distance :: "real list \<Rightarrow> real list \<Rightarrow> DTWSettings \<Rightarrow> real option" where
  "dtw_distance s1 s2 st =
     (if max_length_diff st \<noteq> 0 \<and> max_length_diff st < \<bar>int (length s1) - int (length s2)\<bar>
      then None
      else
        (case final_cost st s1 s2 of
           None \<Rightarrow> None
         | Some c \<Rightarrow>
             if max_dist st \<noteq> 0 \<and> max_dist st < sqrt c then None else Some (sqrt c)))"

section \<open>The row sum and the enumeration of pairs\<close>

text \<open>
  The count the specification gives for a restricted block: row \<open>ri\<close> contributes
  \<open>max 0 (ce - ri - 1)\<close> when \<open>cb \<le> ri\<close> and \<open>max 0 (ce - cb)\<close> otherwise, summed over
  the rows \<open>rb \<le> ri < re\<close>; and the brute-force enumeration of the pairs \<open>(ri, ci)\<close>
  with \<open>ri < ci\<close>, \<open>rb \<le> ri < re\<close>, \<open>cb \<le> ci < ce\<close>.
\<close>

definition row_count :: "DTWBlock \<Rightarrow> int \<Rightarrow> int" where
  "row_count block ri =
     (if cb block \<le> ri then max 0 (ce block - ri - 1) else max 0 (ce block - cb block))"

definition restricted_length :: "DTWBlock \<Rightarrow> int" where
  "restricted_length block = sum_list (map (row_count block) [rb block..re block - 1])"

definition brute_force_pairs :: "DTWBlock \<Rightarrow> (int \<times> int) list" where
  "brute_force_pairs block =
     filter (\<lambda>(ri, ci). ri < ci)
       (List.product [rb block..re block - 1] [cb block..ce block - 1])"

section \<open>Facts about the C integer types\<close>

lemma bits_positive: "0 < long_bits P" "0 < ssize_bits P"
  by (cases P; simp)+

lemma long_le_ssize: "long_bits P \<le> ssize_bits P"
  by (cases P) simp_all

lemma wrap_signed_fits:
  assumes "0 < w" and "fits_signed w v"
  shows "wrap_signed w v = v"
proof -
  have p: "(2::int) ^ w = 2 * 2 ^ (w - 1)"
    using assms(1) by (cases w) simp_all
  have "0 \<le> v + 2 ^ (w - 1)" and "v + 2 ^ (w - 1) < 2 ^ w"
    using assms(2) by (simp_all add: fits_signed_def p)
  then have "(v + 2 ^ (w - 1)) mod 2 ^ w = v + 2 ^ (w - 1)"
    by simp
  then show ?thesis
    by (simp add: wrap_signed_def)
qed

lemma fits_signed_mono:
  assumes "w \<le> w'" and "fits_signed w v"
  shows "fits_signed w' v"
proof -
  have "(2::int) ^ (w - 1) \<le> 2 ^ (w' - 1)"
    using assms(1) by (intro power_increasing) auto
  then show ?thesis
    using assms(2) unfolding fits_signed_def by linarith
qed

lemma fits_signed_nonneg:
  "0 \<le> v \<Longrightarrow> fits_signed w v = (v < 2 ^ (w - 1))"
proof -
  assume "0 \<le> v"
  moreover have "(0::int) < 2 ^ (w - 1)" by simp
  ultimately show ?thesis
    unfolding fits_signed_def by linarith
qed

section \<open>The full triangle\<close>

lemma triangle_even:
  fixes n :: int
  assumes "n mod 2 = 0"
  shows "(n div 2) * (n - 1) = n * (n - 1) div 2"
proof -
  from assms obtain k where k: "n = 2 * k" by (metis mod_eq_0_iff_dvd dvd_def)
  have "n * (n - 1) = 2 * (k * (n - 1))" by (simp add: k)
  then have "n * (n - 1) div 2 = 2 * (k * (n - 1)) div 2" by (simp only:)
  also have "\<dots> = k * (n - 1)" by simp
  also have "k = n div 2" by (simp add: k)
  finally show ?thesis by simp
qed

lemma triangle_odd:
  fixes n :: int
  assumes "n mod 2 \<noteq> 0"
  shows "n * ((n - 1) div 2) = n * (n - 1) div 2"
proof -
  from assms have "odd n" by presburger
  then obtain k where k: "n = 2 * k + 1" by (elim oddE)
  have "n * (n - 1) = 2 * (n * k)" by (simp add: k algebra_simps)
  then have "n * (n - 1) div 2 = 2 * (n * k) div 2" by (simp only:)
  also have "\<dots> = n * k" by simp
  also have "k = (n - 1) div 2" by (simp add: k)
  finally show ?thesis by simp
qed

lemma pair_count_int_range:
  fixes n :: int
  assumes "0 \<le> n" and "n < 2 ^ 31"
  shows "0 \<le> n * (n - 1) div 2" and "n * (n - 1) div 2 < 2 ^ 62"
proof -
  have "n = 0 \<or> 1 \<le> n" using assms(1) by linarith
  then have nn: "0 \<le> n * (n - 1)" by auto
  then show "0 \<le> n * (n - 1) div 2" by simp
  have "n * (n - 1) \<le> n * n" using assms(1) by (simp add: algebra_simps)
  also have "n * n \<le> 2 ^ 31 * 2 ^ 31"
    using assms by (intro mult_mono) auto
  finally have "n * (n - 1) \<le> 2 ^ 62" by simp
  then have "n * (n - 1) div 2 \<le> 2 ^ 62 div 2" by (intro zdiv_mono1) auto
  then show "n * (n - 1) div 2 < 2 ^ 62" by simp
qed

lemma full_triangle_fits:
  assumes "0 \<le> n" and "n < 2 ^ 31" and "0 < lw"
    and "n * (n - 1) div 2 < 2 ^ (lw - 1)"
  shows "full_triangle lw n = n * (n - 1) div 2"
proof -
  have "fits_signed int_bits (n - 1)"
    using assms(1,2) by (simp add: fits_signed_def int_bits_def)
  then have m: "wrap_signed int_bits (n - 1) = n - 1"
    by (simp add: wrap_signed_fits int_bits_def)
  have f: "fits_signed lw (n * (n - 1) div 2)"
    using pair_count_int_range(1)[OF assms(1,2)] assms(4) by (simp add: fits_signed_nonneg)
  show ?thesis
  proof (cases "n mod 2 = 0")
    case True
    then show ?thesis
      using f assms(3) by (simp add: full_triangle_def m triangle_even wrap_signed_fits)
  next
    case False
    then show ?thesis
      using f assms(3) by (simp add: full_triangle_def m triangle_odd wrap_signed_fits)
  qed
qed

lemma length_of_full_triangle:
  assumes "0 \<le> n" and "n < 2 ^ 31"
    and "re block = 0" and "ce block = 0"
    and "fits_signed (ssize_bits P) (rb block)"
    and "P = LP64 \<or> n * (n - 1) div 2 < 2 ^ (long_bits P - 1)"
  shows "distance_matrix_length P block n = Inr (Some (n * (n - 1) div 2))"
proof -
  let ?c = "n * (n - 1) div 2"
  have c0: "0 \<le> ?c" and c62: "?c < 2 ^ 62"
    using pair_count_int_range[OF assms(1,2)] by auto
  have cl: "?c < 2 ^ (long_bits P - 1)"
  proof (cases "P = LP64")
    case True
    have "(2::int) ^ 62 \<le> 2 ^ 63" by simp
    then show ?thesis using c62 True by simp
  next
    case False
    then show ?thesis using assms(6) by simp
  qed
  have ft: "full_triangle (long_bits P) n = ?c"
    using full_triangle_fits[OF assms(1,2) bits_positive(1) cl] .
  have "fits_signed (long_bits P) ?c"
    using c0 cl by (simp add: fits_signed_nonneg)
  then have "fits_signed (ssize_bits P) ?c"
    using fits_signed_mono[OF long_le_ssize] by blast
  then have ws: "wrap_signed (ssize_bits P) ?c = ?c"
    by (simp add: wrap_signed_fits bits_positive)
  have ni: "as_c_signed int_bits n = Inr n"
    using assms(1,2) by (simp add: as_c_signed_def fits_signed_def int_bits_def)
  have bi: "as_c_signed (ssize_bits P) (rb block) = Inr (rb block)"
    using assms(5) by (simp add: as_c_signed_def)
  show ?thesis
    using c0 by (simp add: distance_matrix_length_def ni bi assms(3,4) ft ws)
qed

text \<open>
  Claim C1, as the code has it. For a collection size \<open>n \<ge> 0\<close> (a C \<^verbatim>\<open>int\<close>) and a block with
  \<open>re = 0\<close> and \<open>ce = 0\<close>, \<^verbatim>\<open>distance_matrix_length\<close> returns exactly
  \<open>n * (n - 1) div 2\<close>, which the code computes as \<open>(n div 2) * (n - 1)\<close> for even \<open>n\<close>
  and as \<open>n * ((n - 1) div 2)\<close> for odd \<open>n\<close>. Where \<^verbatim>\<open>long\<close> has 64 bits this covers
  every \<open>n\<close> of the argument's type; where it has 32 bits, every \<open>n\<close> whose count fits it.
  The witness instantiates the theorem at \<open>n = 5\<close> (result 10) and \<open>n = 6\<close> (result 15).
\<close>

theorem distance_matrix_length_full_triangle:
  assumes "0 \<le> n" and "n < 2 ^ 31"
    and "re block = 0" and "ce block = 0"
    and "fits_signed (ssize_bits P) (rb block)"
    and "P = LP64 \<or> n * (n - 1) div 2 < 2 ^ (long_bits P - 1)"
  shows "distance_matrix_length P block n = Inr (Some (n * (n - 1) div 2))
       \<and> n * (n - 1) div 2 = (if n mod 2 = 0 then (n div 2) * (n - 1) else n * ((n - 1) div 2))"
proof -
  have returned: "distance_matrix_length P block n = Inr (Some (n * (n - 1) div 2))"
    using assms by (rule length_of_full_triangle)
  have "n * (n - 1) div 2 = (n div 2) * (n - 1)" if "n mod 2 = 0"
    using that by (simp add: triangle_even)
  moreover have "n * (n - 1) div 2 = n * ((n - 1) div 2)" if "n mod 2 \<noteq> 0"
    using that by (simp add: triangle_odd)
  ultimately show ?thesis
    using returned by simp
qed

theorem distance_matrix_length_full_triangle_witness:
  "distance_matrix_length LP64 \<lparr>rb = 0, re = 0, cb = 0, ce = 0\<rparr> 100000 = Inr (Some 4999950000)
   \<and> distance_matrix_length ILP32 \<lparr>rb = 0, re = 0, cb = 0, ce = 0\<rparr> 5 = Inr (Some 10)
   \<and> distance_matrix_length LLP64 \<lparr>rb = 0, re = 0, cb = 0, ce = 0\<rparr> 6 = Inr (Some 15)"
  using distance_matrix_length_full_triangle [of 100000 "\<lparr>rb = 0, re = 0, cb = 0, ce = 0\<rparr>" LP64]
    distance_matrix_length_full_triangle [of 5 "\<lparr>rb = 0, re = 0, cb = 0, ce = 0\<rparr>" ILP32]
    distance_matrix_length_full_triangle [of 6 "\<lparr>rb = 0, re = 0, cb = 0, ce = 0\<rparr>" LLP64]
  by (simp add: fits_signed_def)

text \<open>
  Claim C1 as stated, for every \<open>n \<ge> 0\<close>, fails in two ways. Where \<^verbatim>\<open>long\<close> has 32 bits
  and \<^verbatim>\<open>Py_ssize_t\<close> 64, \<open>n = 100000\<close> has 4999950000 pairs, which fit \<^verbatim>\<open>Py_ssize_t\<close>, but
  the product wraps in \<^verbatim>\<open>long\<close> and 704982704 is returned. And a collection size beyond the
  C \<^verbatim>\<open>int\<close> of the argument, such as \<open>2 ^ 31\<close>, raises \<^verbatim>\<open>OverflowError\<close> in every data model.
\<close>

theorem full_triangle_not_returned:
  "distance_matrix_length LLP64 \<lparr>rb = 0, re = 0, cb = 0, ce = 0\<rparr> 100000 = Inr (Some 704982704)
   \<and> (100000::int) * (100000 - 1) div 2 = 4999950000
   \<and> fits_signed (ssize_bits LLP64) 4999950000
   \<and> distance_matrix_length LP64 \<lparr>rb = 0, re = 0, cb = 0, ce = 0\<rparr> (2 ^ 31) = Inl OverflowError"
  by (simp add: distance_matrix_length_def as_c_signed_def fits_signed_def int_bits_def
      full_triangle_def wrap_signed_def)

section \<open>Restricted blocks\<close>

lemma row_count_nonneg: "0 \<le> row_count block ri"
  by (simp add: row_count_def)

lemma sum_row_count_nonneg: "0 \<le> sum_list (map (row_count block) ris)"
  by (induction ris) (simp_all add: row_count_nonneg)

lemma rows_loop_sum:
  assumes "cb block \<le> ce block" and "0 \<le> acc"
    and "acc + sum_list (map (row_count block) ris) < 2 ^ (lw - 1)"
  shows "rows_loop lw block ris acc = Inr (acc + sum_list (map (row_count block) ris))"
  using assms(2,3)
proof (induction ris arbitrary: acc)
  case Nil
  then show ?case by simp
next
  case (Cons ri ris)
  let ?a = "acc + row_count block ri"
  have a0: "0 \<le> ?a"
    using Cons.prems(1) row_count_nonneg[of block ri] by linarith
  have rest: "?a + sum_list (map (row_count block) ris) < 2 ^ (lw - 1)"
    using Cons.prems(2) by (simp add: add.assoc)
  have "?a < 2 ^ (lw - 1)"
    using rest sum_row_count_nonneg[of block ris] by linarith
  then have fit: "as_c_signed lw ?a = Inr ?a"
    using a0 by (simp add: as_c_signed_def fits_signed_nonneg)
  have ih: "rows_loop lw block ris ?a = Inr (?a + sum_list (map (row_count block) ris))"
    using Cons.IH[OF a0 rest] .
  consider (a) "cb block \<le> ri" "ri < ce block" | (b) "cb block \<le> ri" "ce block \<le> ri"
    | (c) "ri < cb block" "ri < ce block" | (d) "ri < cb block" "ce block \<le> ri"
    by linarith
  then show ?case
  proof cases
    case a
    then have rc: "row_count block ri = ce block - ri - 1" by (simp add: row_count_def)
    show ?thesis using a fit ih by (simp add: rc add.assoc)
  next
    case b
    then have rc: "row_count block ri = 0" by (simp add: row_count_def)
    show ?thesis using b ih by (simp add: rc)
  next
    case c
    then have rc: "row_count block ri = ce block - cb block"
      using assms(1) by (simp add: row_count_def)
    show ?thesis using c fit ih by (simp add: rc add.assoc)
  next
    case d
    then have rc: "row_count block ri = 0" by (simp add: row_count_def)
    show ?thesis using d ih by (simp add: rc)
  qed
qed

lemma sum_list_le_length_times:
  fixes f :: "int \<Rightarrow> int"
  assumes "\<And>x. x \<in> set xs \<Longrightarrow> f x \<le> c"
  shows "sum_list (map f xs) \<le> int (length xs) * c"
  using assms
proof (induction xs)
  case Nil
  then show ?case by simp
next
  case (Cons x xs)
  have "f x \<le> c" using Cons.prems by simp
  moreover have "sum_list (map f xs) \<le> int (length xs) * c"
    using Cons by simp
  ultimately show ?case by (simp add: algebra_simps)
qed

lemma restricted_length_bound:
  assumes "0 \<le> rb block" "rb block \<le> re block" "re block \<le> n"
    and "0 \<le> cb block" "cb block \<le> ce block" "ce block \<le> n"
  shows "restricted_length block \<le> n * n"
proof -
  have "\<And>ri. ri \<in> set [rb block..re block - 1] \<Longrightarrow> row_count block ri \<le> n"
    using assms by (auto simp: row_count_def)
  then have "restricted_length block \<le> int (length [rb block..re block - 1]) * n"
    unfolding restricted_length_def by (rule sum_list_le_length_times)
  also have "int (length [rb block..re block - 1]) = re block - rb block"
    using assms(2) by simp
  also have "(re block - rb block) * n \<le> n * n"
    using assms by (intro mult_right_mono) auto
  finally show ?thesis .
qed

text \<open>
  The row sum counts the pairs of the block, whatever the bounds are.
\<close>

lemma filter_greater_upto:
  "filter (\<lambda>ci. ri < ci) [a..b] = [max a (ri + 1)..b]"
proof (cases "ri < a")
  case True
  then have "filter (\<lambda>ci. ri < ci) [a..b] = [a..b]" by (intro filter_True) auto
  moreover have "max a (ri + 1) = a" using True by auto
  ultimately show ?thesis by simp
next
  case False
  show ?thesis
  proof (cases "ri + 1 \<le> b")
    case True
    have "[a..b] = [a..ri] @ [ri + 1..b]"
      using upto_split1[of a "ri + 1" b] False True by simp
    moreover have "filter (\<lambda>ci. ri < ci) [a..ri] = []" by (intro filter_False) auto
    moreover have "filter (\<lambda>ci. ri < ci) [ri + 1..b] = [ri + 1..b]" by (intro filter_True) auto
    ultimately show ?thesis using False by (simp add: max_def)
  next
    case F2: False
    have "filter (\<lambda>ci. ri < ci) [a..b] = []" using F2 by (intro filter_False) auto
    then show ?thesis using False F2 by (simp add: max_def)
  qed
qed

lemma row_count_enumerated:
  "row_count block ri = int (length (filter (\<lambda>ci. ri < ci) [cb block..ce block - 1]))"
  by (auto simp: row_count_def filter_greater_upto max_def)

lemma length_filter_product:
  "length (filter (\<lambda>(ri, ci). P ri ci) (List.product rows cols))
     = sum_list (map (\<lambda>ri. length (filter (P ri) cols)) rows)"
  by (induction rows) (simp_all add: filter_map comp_def)

lemma int_sum_list:
  "int (sum_list (map f xs)) = sum_list (map (\<lambda>x. int (f x)) xs)"
  by (induction xs) simp_all

lemma restricted_length_enumerated:
  "restricted_length block = int (length (brute_force_pairs block))"
proof -
  have "int (length (brute_force_pairs block))
      = int (sum_list (map (\<lambda>ri. length (filter (\<lambda>ci. ri < ci) [cb block..ce block - 1]))
               [rb block..re block - 1]))"
    unfolding brute_force_pairs_def by (simp only: length_filter_product)
  also have "\<dots> = sum_list (map (row_count block) [rb block..re block - 1])"
  proof -
    have "row_count block
        = (\<lambda>ri. int (length (filter (\<lambda>ci. ri < ci) [cb block..ce block - 1])))"
      by (rule ext) (rule row_count_enumerated)
    then show ?thesis by (simp add: int_sum_list)
  qed
  finally show ?thesis by (simp add: restricted_length_def)
qed

lemma sum_upto_last:
  fixes f :: "int \<Rightarrow> int"
  assumes "0 \<le> m"
  shows "sum_list (map f [0..m]) = sum_list (map f [0..m - 1]) + f m"
  using assms by (simp add: upto_rec2)

lemma twice_triangle_rows:
  fixes n :: int
  shows "2 * sum_list (map (\<lambda>ri. n - ri - 1) [0..int m - 1]) = 2 * int m * n - int m * (int m + 1)"
proof (induction m)
  case 0
  then show ?case by simp
next
  case (Suc m)
  have "sum_list (map (\<lambda>ri. n - ri - 1) [0..int (Suc m) - 1])
      = sum_list (map (\<lambda>ri. n - ri - 1) [0..int m - 1]) + (n - int m - 1)"
    using sum_upto_last[of "int m" "\<lambda>ri. n - ri - 1"] by simp
  then show ?case using Suc.IH by (simp add: algebra_simps)
qed

lemma full_triangle_enumerated:
  assumes "0 \<le> n"
  shows "int (length (brute_force_pairs \<lparr>rb = 0, re = n, cb = 0, ce = n\<rparr>)) = n * (n - 1) div 2"
proof -
  let ?b = "\<lparr>rb = 0, re = n, cb = 0, ce = n\<rparr>"
  have "sum_list (map (row_count ?b) [0..n - 1]) = sum_list (map (\<lambda>ri. n - ri - 1) [0..n - 1])"
    by (intro arg_cong[where f = sum_list] map_cong) (auto simp: row_count_def)
  then have "restricted_length ?b = sum_list (map (\<lambda>ri. n - ri - 1) [0..n - 1])"
    by (simp add: restricted_length_def)
  moreover have "2 * sum_list (map (\<lambda>ri. n - ri - 1) [0..n - 1]) = 2 * n * n - n * (n + 1)"
    using twice_triangle_rows[of n "nat n"] assms by simp
  ultimately have "2 * restricted_length ?b = n * (n - 1)"
    by (simp add: algebra_simps)
  then have "restricted_length ?b = n * (n - 1) div 2" by simp
  then show ?thesis by (simp add: restricted_length_enumerated)
qed

lemma restricted_example:
  "distance_matrix_length P \<lparr>rb = 1, re = 4, cb = 2, ce = 5\<rparr> 6
     = Inr (Some (int (length (brute_force_pairs \<lparr>rb = 1, re = 4, cb = 2, ce = 5\<rparr>))))"
  by (cases P)
    (simp_all add: distance_matrix_length_def as_c_signed_def fits_signed_def int_bits_def
      py_range_def wrap_signed_def brute_force_pairs_def upto.simps)

lemma length_of_restricted_block:
  assumes "0 \<le> rb block" "rb block \<le> re block" "re block \<le> n"
    and "0 \<le> cb block" "cb block \<le> ce block" "ce block \<le> n"
    and "\<not> (re block = 0 \<and> ce block = 0)"
    and "n < 2 ^ 31"
    and "P = LP64 \<or> restricted_length block < 2 ^ (long_bits P - 1)"
  shows "distance_matrix_length P block n = Inr (Some (restricted_length block))"
proof -
  let ?c = "restricted_length block"
  have n0: "0 \<le> n" using assms(1-3) by linarith
  have c0: "0 \<le> ?c"
    unfolding restricted_length_def by (rule sum_row_count_nonneg)
  have "n * n \<le> 2 ^ 31 * 2 ^ 31"
    using n0 assms(8) by (intro mult_mono) auto
  then have c62: "?c \<le> 2 ^ 62"
    using restricted_length_bound[OF assms(1-6)] by simp
  have cl: "?c < 2 ^ (long_bits P - 1)"
  proof (cases "P = LP64")
    case True
    have "(2::int) ^ 62 < 2 ^ 63" by simp
    then show ?thesis using c62 True by simp
  next
    case False
    then show ?thesis using assms(9) by simp
  qed
  have loop: "rows_loop (long_bits P) block (py_range (rb block) (re block)) 0 = Inr ?c"
    using rows_loop_sum[of block 0 "[rb block..re block - 1]" "long_bits P"] assms(5) cl
    by (simp add: py_range_def restricted_length_def)
  have "fits_signed (long_bits P) ?c"
    using c0 cl by (simp add: fits_signed_nonneg)
  then have "fits_signed (ssize_bits P) ?c"
    using fits_signed_mono[OF long_le_ssize] by blast
  then have ws: "wrap_signed (ssize_bits P) ?c = ?c"
    by (simp add: wrap_signed_fits bits_positive)
  have ni: "as_c_signed int_bits n = Inr n"
    using n0 assms(8) by (simp add: as_c_signed_def fits_signed_def int_bits_def)
  have "rb block < 2 ^ 31" using assms(2,3,8) by linarith
  then have "fits_signed 32 (rb block)"
    using assms(1) by (simp add: fits_signed_nonneg)
  then have "fits_signed (ssize_bits P) (rb block)"
    by (rule fits_signed_mono[rotated]) (cases P; simp)
  then have bi: "as_c_signed (ssize_bits P) (rb block) = Inr (rb block)"
    by (simp add: as_c_signed_def)
  have nz: "(re block = 0 \<and> ce block = 0) = False"
    using assms(7) by simp
  show ?thesis
    using c0 by (simp add: distance_matrix_length_def ni bi nz loop ws)
qed

text \<open>
  Claim C2, as the code has it. For a block with \<open>0 \<le> rb \<le> re \<le> n\<close>, \<open>0 \<le> cb \<le> ce \<le> n\<close> and not
  \<open>re = 0 \<and> ce = 0\<close>, \<^verbatim>\<open>distance_matrix_length\<close> returns the sum over the rows
  \<open>rb \<le> ri < re\<close> of \<open>max 0 (ce - ri - 1)\<close> when \<open>cb \<le> ri\<close> and \<open>max 0 (ce - cb)\<close>
  otherwise. Where \<^verbatim>\<open>long\<close> has 64 bits this covers every such block over a collection
  size of the argument's type; where it has 32 bits, every block whose count fits it.
  The sum is the number of pairs the brute-force enumeration lists; for the block
  \<open>(rb = 1, re = 4, cb = 2, ce = 5)\<close> over \<open>n = 6\<close> that number, 6, is the result.
\<close>

theorem distance_matrix_length_restricted:
  assumes "0 \<le> rb block" "rb block \<le> re block" "re block \<le> n"
    and "0 \<le> cb block" "cb block \<le> ce block" "ce block \<le> n"
    and "\<not> (re block = 0 \<and> ce block = 0)"
    and "n < 2 ^ 31"
    and "P = LP64 \<or> restricted_length block < 2 ^ (long_bits P - 1)"
  shows "distance_matrix_length P block n = Inr (Some (restricted_length block))
       \<and> restricted_length block = int (length (brute_force_pairs block))
       \<and> distance_matrix_length P \<lparr>rb = 1, re = 4, cb = 2, ce = 5\<rparr> 6
           = Inr (Some (int (length (brute_force_pairs \<lparr>rb = 1, re = 4, cb = 2, ce = 5\<rparr>))))"
proof -
  have "distance_matrix_length P block n = Inr (Some (restricted_length block))"
    using assms by (rule length_of_restricted_block)
  moreover have "restricted_length block = int (length (brute_force_pairs block))"
    by (rule restricted_length_enumerated)
  moreover have "distance_matrix_length P \<lparr>rb = 1, re = 4, cb = 2, ce = 5\<rparr> 6
      = Inr (Some (int (length (brute_force_pairs \<lparr>rb = 1, re = 4, cb = 2, ce = 5\<rparr>))))"
    by (rule restricted_example)
  ultimately show ?thesis by blast
qed

theorem distance_matrix_length_restricted_witness:
  "distance_matrix_length ILP32 \<lparr>rb = 1, re = 4, cb = 2, ce = 5\<rparr> 6 = Inr (Some 6)
   \<and> restricted_length \<lparr>rb = 1, re = 4, cb = 2, ce = 5\<rparr> = 6
   \<and> length (brute_force_pairs \<lparr>rb = 1, re = 4, cb = 2, ce = 5\<rparr>) = 6"
  using distance_matrix_length_restricted [of "\<lparr>rb = 1, re = 4, cb = 2, ce = 5\<rparr>" 6 ILP32]
  by (simp add: restricted_length_def row_count_def brute_force_pairs_def upto.simps)

text \<open>
  Claim C2 as stated, for every block within the bounds, fails in two ways. Where \<^verbatim>\<open>long\<close>
  has 32 bits and \<^verbatim>\<open>Py_ssize_t\<close> 64, the block \<open>(0, 3, 100, 2 ^ 31 - 1)\<close> over
  \<open>n = 2 ^ 31 - 1\<close> has the row sum 6442450641, which fits \<^verbatim>\<open>Py_ssize_t\<close>, but the second
  \<^verbatim>\<open>llength += ...\<close> does not fit \<^verbatim>\<open>long\<close> and raises \<^verbatim>\<open>OverflowError\<close>. And a collection
  size beyond the C \<^verbatim>\<open>int\<close> of the argument, such as \<open>2 ^ 31\<close>, raises \<^verbatim>\<open>OverflowError\<close> in
  every data model.
\<close>

theorem restricted_sum_not_returned:
  "distance_matrix_length LLP64 \<lparr>rb = 0, re = 3, cb = 100, ce = 2147483647\<rparr> 2147483647
     = Inl OverflowError
   \<and> restricted_length \<lparr>rb = 0, re = 3, cb = 100, ce = 2147483647\<rparr> = 6442450641
   \<and> fits_signed (ssize_bits LLP64) 6442450641
   \<and> distance_matrix_length LP64 \<lparr>rb = 0, re = 1, cb = 0, ce = 1\<rparr> (2 ^ 31) = Inl OverflowError"
  by (simp add: distance_matrix_length_def as_c_signed_def fits_signed_def int_bits_def
      py_range_def restricted_length_def row_count_def upto.simps)

section \<open>The settings constructor\<close>

lemma set_int_option_cases:
  assumes "set_int_option arg upd s = Inr s'"
  shows "(arg = Absent \<and> s' = s) \<or> (arg = IsNone \<and> s' = upd 0 s)
       \<or> (\<exists>v. arg = Given v \<and> fits_signed int_bits v \<and> s' = upd v s)"
  using assms
  by (cases arg) (auto simp: set_int_option_def as_c_signed_def split: if_splits)

lemma set_real_option_cases:
  assumes "set_real_option arg upd s = Inr s'"
  shows "(arg = Absent \<and> s' = s) \<or> (arg = IsNone \<and> s' = upd 0 s)
       \<or> (\<exists>v. arg = Given v \<and> s' = upd v s)"
  using assms
  by (cases arg) (auto simp: set_real_option_def)

lemma DTWSettings_init_steps:
  assumes "DTWSettings_init defaults kw = Inr s"
  obtains s1 s2 s3 s4 s5 where
    "set_int_option (kw_window kw) (\<lambda>v s. s\<lparr>window := v\<rparr>) defaults = Inr s1"
    "set_real_option (kw_max_dist kw) (\<lambda>v s. s\<lparr>max_dist := v\<rparr>) s1 = Inr s2"
    "set_real_option (kw_max_step kw) (\<lambda>v s. s\<lparr>max_step := v\<rparr>) s2 = Inr s3"
    "set_int_option (kw_max_length_diff kw) (\<lambda>v s. s\<lparr>max_length_diff := v\<rparr>) s3 = Inr s4"
    "set_real_option (kw_penalty kw) (\<lambda>v s. s\<lparr>penalty := v\<rparr>) s4 = Inr s5"
    "set_int_option (kw_psi kw) (\<lambda>v s. s\<lparr>psi := v\<rparr>) s5 = Inr s"
  using assms unfolding DTWSettings_init_def
  by (auto split: sum.splits)

lemma DTWSettings_init_fields:
  assumes "DTWSettings_init defaults kw = Inr s"
  shows "window s = (case kw_window kw of Absent \<Rightarrow> window defaults | IsNone \<Rightarrow> 0 | Given v \<Rightarrow> v)"
    and "max_dist s = (case kw_max_dist kw of Absent \<Rightarrow> max_dist defaults | IsNone \<Rightarrow> 0 | Given v \<Rightarrow> v)"
    and "max_step s = (case kw_max_step kw of Absent \<Rightarrow> max_step defaults | IsNone \<Rightarrow> 0 | Given v \<Rightarrow> v)"
    and "max_length_diff s = (case kw_max_length_diff kw of Absent \<Rightarrow> max_length_diff defaults | IsNone \<Rightarrow> 0 | Given v \<Rightarrow> v)"
    and "penalty s = (case kw_penalty kw of Absent \<Rightarrow> penalty defaults | IsNone \<Rightarrow> 0 | Given v \<Rightarrow> v)"
    and "psi s = (case kw_psi kw of Absent \<Rightarrow> psi defaults | IsNone \<Rightarrow> 0 | Given v \<Rightarrow> v)"
proof -
  from assms obtain s1 s2 s3 s4 s5 where
    a: "set_int_option (kw_window kw) (\<lambda>v s. s\<lparr>window := v\<rparr>) defaults = Inr s1"
    and b: "set_real_option (kw_max_dist kw) (\<lambda>v s. s\<lparr>max_dist := v\<rparr>) s1 = Inr s2"
    and c: "set_real_option (kw_max_step kw) (\<lambda>v s. s\<lparr>max_step := v\<rparr>) s2 = Inr s3"
    and d: "set_int_option (kw_max_length_diff kw) (\<lambda>v s. s\<lparr>max_length_diff := v\<rparr>) s3 = Inr s4"
    and e: "set_real_option (kw_penalty kw) (\<lambda>v s. s\<lparr>penalty := v\<rparr>) s4 = Inr s5"
    and f: "set_int_option (kw_psi kw) (\<lambda>v s. s\<lparr>psi := v\<rparr>) s5 = Inr s"
    by (rule DTWSettings_init_steps)
  note sa = set_int_option_cases[OF a] and sb = set_real_option_cases[OF b]
    and sc = set_real_option_cases[OF c] and sd = set_int_option_cases[OF d]
    and se = set_real_option_cases[OF e] and sf = set_int_option_cases[OF f]
  have w6: "window s = window s5" using sf by auto
  have w5: "window s5 = window s4" using se by auto
  have w4: "window s4 = window s3" using sd by auto
  have w3: "window s3 = window s2" using sc by auto
  have w2: "window s2 = window s1" using sb by auto
  show "window s = (case kw_window kw of Absent \<Rightarrow> window defaults | IsNone \<Rightarrow> 0 | Given v \<Rightarrow> v)"
    using sa w6 w5 w4 w3 w2 by auto
  have d6: "max_dist s = max_dist s5" using sf by auto
  have d5: "max_dist s5 = max_dist s4" using se by auto
  have d4: "max_dist s4 = max_dist s3" using sd by auto
  have d3: "max_dist s3 = max_dist s2" using sc by auto
  have d1: "max_dist s1 = max_dist defaults" using sa by auto
  show "max_dist s = (case kw_max_dist kw of Absent \<Rightarrow> max_dist defaults | IsNone \<Rightarrow> 0 | Given v \<Rightarrow> v)"
    using sb d6 d5 d4 d3 d1 by auto
  have t6: "max_step s = max_step s5" using sf by auto
  have t5: "max_step s5 = max_step s4" using se by auto
  have t4: "max_step s4 = max_step s3" using sd by auto
  have t2: "max_step s2 = max_step s1" using sb by auto
  have t1: "max_step s1 = max_step defaults" using sa by auto
  show "max_step s = (case kw_max_step kw of Absent \<Rightarrow> max_step defaults | IsNone \<Rightarrow> 0 | Given v \<Rightarrow> v)"
    using sc t6 t5 t4 t2 t1 by auto
  have l6: "max_length_diff s = max_length_diff s5" using sf by auto
  have l5: "max_length_diff s5 = max_length_diff s4" using se by auto
  have l3: "max_length_diff s3 = max_length_diff s2" using sc by auto
  have l2: "max_length_diff s2 = max_length_diff s1" using sb by auto
  have l1: "max_length_diff s1 = max_length_diff defaults" using sa by auto
  show "max_length_diff s = (case kw_max_length_diff kw of Absent \<Rightarrow> max_length_diff defaults | IsNone \<Rightarrow> 0 | Given v \<Rightarrow> v)"
    using sd l6 l5 l3 l2 l1 by auto
  have p6: "penalty s = penalty s5" using sf by auto
  have p4: "penalty s4 = penalty s3" using sd by auto
  have p3: "penalty s3 = penalty s2" using sc by auto
  have p2: "penalty s2 = penalty s1" using sb by auto
  have p1: "penalty s1 = penalty defaults" using sa by auto
  show "penalty s = (case kw_penalty kw of Absent \<Rightarrow> penalty defaults | IsNone \<Rightarrow> 0 | Given v \<Rightarrow> v)"
    using se p6 p4 p3 p2 p1 by auto
  have q5: "psi s5 = psi s4" using se by auto
  have q4: "psi s4 = psi s3" using sd by auto
  have q3: "psi s3 = psi s2" using sc by auto
  have q2: "psi s2 = psi s1" using sb by auto
  have q1: "psi s1 = psi defaults" using sa by auto
  show "psi s = (case kw_psi kw of Absent \<Rightarrow> psi defaults | IsNone \<Rightarrow> 0 | Given v \<Rightarrow> v)"
    using sf q5 q4 q3 q2 q1 by auto
qed

lemma DTWSettings_init_single:
  "DTWSettings_init d (no_kwargs\<lparr>kw_window := IsNone\<rparr>) = Inr (d\<lparr>window := 0\<rparr>)"
  "DTWSettings_init d (no_kwargs\<lparr>kw_max_dist := IsNone\<rparr>) = Inr (d\<lparr>max_dist := 0\<rparr>)"
  "DTWSettings_init d (no_kwargs\<lparr>kw_max_step := IsNone\<rparr>) = Inr (d\<lparr>max_step := 0\<rparr>)"
  "DTWSettings_init d (no_kwargs\<lparr>kw_max_length_diff := IsNone\<rparr>) = Inr (d\<lparr>max_length_diff := 0\<rparr>)"
  "DTWSettings_init d (no_kwargs\<lparr>kw_penalty := IsNone\<rparr>) = Inr (d\<lparr>penalty := 0\<rparr>)"
  "DTWSettings_init d (no_kwargs\<lparr>kw_psi := IsNone\<rparr>) = Inr (d\<lparr>psi := 0\<rparr>)"
  by (simp_all add: DTWSettings_init_def no_kwargs_def set_int_option_def set_real_option_def)

text \<open>
  Claim C9. For each of the six options \<^verbatim>\<open>window\<close>, \<^verbatim>\<open>max_dist\<close>, \<^verbatim>\<open>max_step\<close>,
  \<^verbatim>\<open>max_length_diff\<close>, \<^verbatim>\<open>penalty\<close>, \<^verbatim>\<open>psi\<close>: constructing \<^verbatim>\<open>DTWSettings\<close> with the option
  set to \<^verbatim>\<open>None\<close> stores 0 in its field, whatever the defaults and the other options
  are; with only that option given the construction succeeds and changes nothing else.
\<close>

theorem DTWSettings_None_stores_zero:
  "(DTWSettings_init defaults kw = Inr s \<longrightarrow>
      (kw_window kw = IsNone \<longrightarrow> window s = 0)
    \<and> (kw_max_dist kw = IsNone \<longrightarrow> max_dist s = 0)
    \<and> (kw_max_step kw = IsNone \<longrightarrow> max_step s = 0)
    \<and> (kw_max_length_diff kw = IsNone \<longrightarrow> max_length_diff s = 0)
    \<and> (kw_penalty kw = IsNone \<longrightarrow> penalty s = 0)
    \<and> (kw_psi kw = IsNone \<longrightarrow> psi s = 0))
   \<and> DTWSettings_init defaults (no_kwargs\<lparr>kw_window := IsNone\<rparr>) = Inr (defaults\<lparr>window := 0\<rparr>)
   \<and> DTWSettings_init defaults (no_kwargs\<lparr>kw_max_dist := IsNone\<rparr>) = Inr (defaults\<lparr>max_dist := 0\<rparr>)
   \<and> DTWSettings_init defaults (no_kwargs\<lparr>kw_max_step := IsNone\<rparr>) = Inr (defaults\<lparr>max_step := 0\<rparr>)
   \<and> DTWSettings_init defaults (no_kwargs\<lparr>kw_max_length_diff := IsNone\<rparr>)
         = Inr (defaults\<lparr>max_length_diff := 0\<rparr>)
   \<and> DTWSettings_init defaults (no_kwargs\<lparr>kw_penalty := IsNone\<rparr>) = Inr (defaults\<lparr>penalty := 0\<rparr>)
   \<and> DTWSettings_init defaults (no_kwargs\<lparr>kw_psi := IsNone\<rparr>) = Inr (defaults\<lparr>psi := 0\<rparr>)"
proof -
  have "DTWSettings_init defaults kw = Inr s \<longrightarrow>
      (kw_window kw = IsNone \<longrightarrow> window s = 0)
    \<and> (kw_max_dist kw = IsNone \<longrightarrow> max_dist s = 0)
    \<and> (kw_max_step kw = IsNone \<longrightarrow> max_step s = 0)
    \<and> (kw_max_length_diff kw = IsNone \<longrightarrow> max_length_diff s = 0)
    \<and> (kw_penalty kw = IsNone \<longrightarrow> penalty s = 0)
    \<and> (kw_psi kw = IsNone \<longrightarrow> psi s = 0)"
  proof
    assume a: "DTWSettings_init defaults kw = Inr s"
    show "(kw_window kw = IsNone \<longrightarrow> window s = 0)
      \<and> (kw_max_dist kw = IsNone \<longrightarrow> max_dist s = 0)
      \<and> (kw_max_step kw = IsNone \<longrightarrow> max_step s = 0)
      \<and> (kw_max_length_diff kw = IsNone \<longrightarrow> max_length_diff s = 0)
      \<and> (kw_penalty kw = IsNone \<longrightarrow> penalty s = 0)
      \<and> (kw_psi kw = IsNone \<longrightarrow> psi s = 0)"
      using DTWSettings_init_fields[OF a] by simp
  qed
  then show ?thesis
    using DTWSettings_init_single[of defaults] by simp
qed

theorem DTWSettings_None_stores_zero_witness:
  "DTWSettings_init
     \<lparr>window = 7, max_dist = 7, max_step = 7, max_length_diff = 7, penalty = 7, psi = 7\<rparr>
     \<lparr>kw_window = IsNone, kw_max_dist = IsNone, kw_max_step = IsNone,
      kw_max_length_diff = IsNone, kw_penalty = IsNone, kw_psi = IsNone\<rparr>
     = Inr zero_settings
   \<and> window zero_settings = 0 \<and> max_dist zero_settings = 0 \<and> max_step zero_settings = 0
   \<and> max_length_diff zero_settings = 0 \<and> penalty zero_settings = 0 \<and> psi zero_settings = 0"
  using DTWSettings_None_stores_zero
    [of "\<lparr>window = 7, max_dist = 7, max_step = 7, max_length_diff = 7, penalty = 7, psi = 7\<rparr>"
        "\<lparr>kw_window = IsNone, kw_max_dist = IsNone, kw_max_step = IsNone,
          kw_max_length_diff = IsNone, kw_penalty = IsNone, kw_psi = IsNone\<rparr>"
        zero_settings]
  by (simp add: DTWSettings_init_def set_int_option_def set_real_option_def zero_settings_def)

section \<open>The batch function\<close>

lemma py_len_nonneg: "py_len cur = Inr n \<Longrightarrow> 0 \<le> n"
  by (cases cur) auto

lemma read_block_zero:
  "read_block Block_none = Inr \<lparr>rb = 0, re = 0, cb = 0, ce = 0\<rparr>"
  "read_block (Block_number 0) = Inr \<lparr>rb = 0, re = 0, cb = 0, ce = 0\<rparr>"
  by (simp_all add: read_block_def)

lemma small_pair_count:
  fixes n :: int
  assumes "0 \<le> n" and "n \<le> 65536"
  shows "n * (n - 1) div 2 < 2 ^ 31"
proof -
  have "n = 0 \<or> 1 \<le> n" using assms(1) by linarith
  then have "n * (n - 1) \<le> 65536 * 65535"
  proof
    assume "n = 0" then show ?thesis by simp
  next
    assume "1 \<le> n"
    then show ?thesis using assms(2) by (intro mult_mono) auto
  qed
  then have "n * (n - 1) div 2 \<le> 65536 * 65535 div 2" by (intro zdiv_mono1) auto
  then show ?thesis by simp
qed

lemma zero_block_length:
  assumes "0 \<le> n" and "n \<le> 65536"
  shows "distance_matrix_length P \<lparr>rb = 0, re = 0, cb = 0, ce = 0\<rparr> n = Inr (Some (n * (n - 1) div 2))"
proof -
  have c: "n * (n - 1) div 2 < 2 ^ 31" using small_pair_count[OF assms] .
  have "(2::int) ^ 31 \<le> 2 ^ (long_bits P - 1)" by (cases P) simp_all
  then have "P = LP64 \<or> n * (n - 1) div 2 < 2 ^ (long_bits P - 1)"
    using c by linarith
  moreover have "n < 2 ^ 31" using assms(2) by simp
  ultimately show ?thesis
    using length_of_full_triangle[of n "\<lparr>rb = 0, re = 0, cb = 0, ce = 0\<rparr>" P] assms(1)
    by (simp add: fits_signed_def)
qed

lemma distance_matrix_zero_block:
  assumes "py_len cur = Inr n" and "n \<le> 65536"
    and "DTWSettings_init defaults kw = Inr settings"
    and "convert_cur cur = Inr cur'"
    and "call_kernel cur' (n * (n - 1) div 2) \<lparr>rb = 0, re = n, cb = 0, ce = n\<rparr> settings
           = Inr calls"
    and "read_block block = Inr \<lparr>rb = 0, re = 0, cb = 0, ce = 0\<rparr>"
  shows "distance_matrix P defaults cur block kw =
           (Resized (n * (n - 1) div 2) # calls, Inr (n * (n - 1) div 2))"
proof -
  let ?c = "n * (n - 1) div 2"
  have n0: "0 \<le> n" using assms(1) by (rule py_len_nonneg)
  have len: "distance_matrix_length P \<lparr>rb = 0, re = 0, cb = 0, ce = 0\<rparr> n = Inr (Some ?c)"
    using zero_block_length[OF n0 assms(2)] .
  have "n = 0 \<or> 1 \<le> n" using n0 by linarith
  then have "0 \<le> n * (n - 1)" by auto
  then have c0: "0 \<le> ?c" by simp
  have ci: "as_c_signed int_bits ?c = Inr ?c"
    using c0 small_pair_count[OF n0 assms(2)]
    by (simp add: as_c_signed_def fits_signed_def int_bits_def)
  show ?thesis
    by (simp add: distance_matrix_def assms(1,3,4,5,6) len ci re_set_def ce_set_def)
qed

text \<open>
  Claim C10. A \<^verbatim>\<open>block\<close> argument that equals \<^verbatim>\<open>0.0\<close> is treated like an absent block:
  the whole call behaves as with \<^verbatim>\<open>None\<close>, the bounds stay at the all-zero sentinel, and
  the array is resized to \<open>n * (n - 1) div 2\<close> elements and the C routine for the converted
  collection is called with this length and the block \<open>(0, n, 0, n)\<close>, the full triangle
  over the \<open>n\<close> sequences (for \<open>n \<le> 65536\<close>, where the count fits the C \<^verbatim>\<open>int\<close> variable
  \<^verbatim>\<open>length\<close>).
\<close>

theorem block_zero_is_no_block:
  "distance_matrix P defaults cur (Block_number 0) kw = distance_matrix P defaults cur Block_none kw
   \<and> read_block (Block_number 0) = Inr \<lparr>rb = 0, re = 0, cb = 0, ce = 0\<rparr>
   \<and> (py_len cur = Inr n \<and> n \<le> 65536 \<and> DTWSettings_init defaults kw = Inr settings
        \<and> convert_cur cur = Inr cur'
        \<and> call_kernel cur' (n * (n - 1) div 2) \<lparr>rb = 0, re = n, cb = 0, ce = n\<rparr> settings
            = Inr calls \<longrightarrow>
      distance_matrix P defaults cur (Block_number 0) kw =
        (Resized (n * (n - 1) div 2) # calls, Inr (n * (n - 1) div 2)))"
proof -
  have "distance_matrix P defaults cur (Block_number 0) kw
          = distance_matrix P defaults cur Block_none kw"
    by (simp add: distance_matrix_def read_block_zero)
  then show ?thesis
    using distance_matrix_zero_block[of cur n defaults kw settings cur' calls "Block_number 0" P]
    by (simp add: read_block_zero)
qed

theorem block_zero_is_no_block_witness:
  "distance_matrix LP64 zero_settings (PyList [NdArray1 [1], NdArray1 [2, 3], NdArray1 [4]])
     (Block_number 0) no_kwargs
   = ([Resized 3,
       Called_dtw_distances_ptrs [[1], [2, 3], [4]] 3 \<lparr>rb = 0, re = 3, cb = 0, ce = 3\<rparr>
         zero_settings],
      Inr 3)"
proof -
  let ?cur = "PyList [NdArray1 [1], NdArray1 [2, 3], NdArray1 [4]]"
  let ?ss = "[[1], [2, 3], [4 :: real]]"
  let ?calls = "[Called_dtw_distances_ptrs ?ss 3 \<lparr>rb = 0, re = 3, cb = 0, ce = 3\<rparr> zero_settings]"
  have s: "DTWSettings_init zero_settings no_kwargs = Inr zero_settings"
    by (simp add: DTWSettings_init_def set_int_option_def set_real_option_def no_kwargs_def)
  have l: "py_len ?cur = Inr 3" by simp
  have c: "convert_cur ?cur = Inr (SeriesPointers ?ss)" by simp
  have k: "call_kernel (SeriesPointers ?ss) (3 * (3 - 1) div 2)
             \<lparr>rb = 0, re = 3, cb = 0, ce = 3\<rparr> zero_settings = Inr ?calls"
    by simp
  have "py_len ?cur = Inr 3 \<and> (3::int) \<le> 65536
          \<and> DTWSettings_init zero_settings no_kwargs = Inr zero_settings
          \<and> convert_cur ?cur = Inr (SeriesPointers ?ss)
          \<and> call_kernel (SeriesPointers ?ss) (3 * (3 - 1) div 2)
               \<lparr>rb = 0, re = 3, cb = 0, ce = 3\<rparr> zero_settings = Inr ?calls \<longrightarrow>
        distance_matrix LP64 zero_settings ?cur (Block_number 0) no_kwargs =
          (Resized (3 * (3 - 1) div 2) # ?calls, Inr (3 * (3 - 1) div 2))"
    using block_zero_is_no_block
      [of LP64 zero_settings ?cur no_kwargs 3 zero_settings "SeriesPointers ?ss" ?calls]
    by blast
  moreover have "(3::int) \<le> 65536" by simp
  ultimately have "distance_matrix LP64 zero_settings ?cur (Block_number 0) no_kwargs =
          (Resized (3 * (3 - 1) div 2) # ?calls, Inr (3 * (3 - 1) div 2))"
    using s l c k by blast
  then show ?thesis by simp
qed

text \<open>
  Claim C5. Whenever \<^verbatim>\<open>distance_matrix_length\<close> signals an overflow for the requested
  block and collection size, by raising \<^verbatim>\<open>OverflowError\<close> or by printing its error line
  and returning \<^verbatim>\<open>None\<close>, \<^verbatim>\<open>distance_matrix\<close> ends with an exception: the array is
  never resized and no C routine is called.
\<close>

theorem overflow_stops_distance_matrix:
  assumes "read_block block = Inr dtwblock" and "py_len cur = Inr n"
    and "distance_matrix_length P dtwblock n = Inl OverflowError
         \<or> distance_matrix_length P dtwblock n = Inr None"
  shows "(\<exists>e. snd (distance_matrix P defaults cur block kw) = Inl e)
       \<and> list_all (\<lambda>ev. \<not> is_resize ev \<and> \<not> is_kernel_call ev)
            (fst (distance_matrix P defaults cur block kw))"
  using assms
  by (cases "DTWSettings_init defaults kw") (auto simp: distance_matrix_def)

theorem overflow_stops_distance_matrix_witness:
  "distance_matrix_length ILP32 \<lparr>rb = 0, re = 0, cb = 0, ce = 0\<rparr> 92682 = Inr None
   \<and> distance_matrix ILP32 zero_settings (SeriesContainer 92682 (SeriesPointers [])) Block_none
        no_kwargs = ([Printed_error], Inl TypeError)
   \<and> distance_matrix_length LP64 \<lparr>rb = 0, re = 0, cb = 0, ce = 0\<rparr> (2 ^ 31) = Inl OverflowError
   \<and> (\<exists>e. snd (distance_matrix LP64 zero_settings (SeriesContainer (2 ^ 31) (SeriesPointers []))
        Block_none no_kwargs) = Inl e)"
proof -
  have a: "distance_matrix_length ILP32 \<lparr>rb = 0, re = 0, cb = 0, ce = 0\<rparr> 92682 = Inr None"
    by (simp add: distance_matrix_length_def as_c_signed_def fits_signed_def int_bits_def
        full_triangle_def wrap_signed_def)
  have b: "distance_matrix_length LP64 \<lparr>rb = 0, re = 0, cb = 0, ce = 0\<rparr> (2 ^ 31) = Inl OverflowError"
    by (simp add: distance_matrix_length_def as_c_signed_def fits_signed_def int_bits_def)
  have c: "distance_matrix ILP32 zero_settings (SeriesContainer 92682 (SeriesPointers [])) Block_none
        no_kwargs = ([Printed_error], Inl TypeError)"
    by (simp add: distance_matrix_def read_block_zero a DTWSettings_init_def set_int_option_def
        set_real_option_def no_kwargs_def)
  have d: "py_len (SeriesContainer (2 ^ 31) (SeriesPointers [])) = Inr (2 ^ 31)"
    by simp
  show ?thesis
    using a b c
      overflow_stops_distance_matrix[OF read_block_zero(1) d, of LP64 zero_settings no_kwargs]
    by simp
qed

text \<open>
  Where \<^verbatim>\<open>long\<close> has 64 bits, a collection size with more pairs than \<^verbatim>\<open>Py_ssize_t\<close> holds
  does not fit the \<^verbatim>\<open>int\<close> argument, and the call raises \<^verbatim>\<open>OverflowError\<close>.
\<close>

lemma overflow_reported_lp64:
  assumes "0 \<le> n" and "\<not> fits_signed (ssize_bits LP64) (n * (n - 1) div 2)"
  shows "distance_matrix_length LP64 block n = Inl OverflowError"
proof -
  have "\<not> n < 2 ^ 31"
  proof
    assume "n < 2 ^ 31"
    then have "0 \<le> n * (n - 1) div 2" and "n * (n - 1) div 2 < 2 ^ 62"
      using pair_count_int_range[OF assms(1)] by auto
    then have "fits_signed (ssize_bits LP64) (n * (n - 1) div 2)"
      by (simp add: fits_signed_def)
    then show False using assms(2) by simp
  qed
  then have "as_c_signed int_bits n = Inl OverflowError"
    by (simp add: as_c_signed_def fits_signed_def int_bits_def)
  then show ?thesis
    by (simp add: distance_matrix_length_def)
qed

text \<open>
  Claim C3 asks that a pair count beyond \<^verbatim>\<open>Py_ssize_t\<close> is reported and never returned
  wrapped. Where \<^verbatim>\<open>long\<close> and \<^verbatim>\<open>Py_ssize_t\<close> have 32 bits, \<open>n = 100000\<close> has
  4999950000 pairs, more than \<open>2 ^ 31 - 1\<close>; the product wraps to 704982704, which is not
  negative, and \<^verbatim>\<open>distance_matrix_length\<close> returns it.
\<close>

theorem wrapped_length_returned:
  "distance_matrix_length ILP32 \<lparr>rb = 0, re = 0, cb = 0, ce = 0\<rparr> 100000 = Inr (Some 704982704)
   \<and> (100000::int) * (100000 - 1) div 2 = 4999950000
   \<and> \<not> fits_signed (ssize_bits ILP32) 4999950000"
  by (simp add: distance_matrix_length_def as_c_signed_def fits_signed_def int_bits_def
      full_triangle_def wrap_signed_def)

text \<open>
  Where \<^verbatim>\<open>long\<close> has 32 bits and \<^verbatim>\<open>Py_ssize_t\<close> 64, the same product wraps although the
  count fits \<^verbatim>\<open>Py_ssize_t\<close>.
\<close>

lemma wrapped_length_llp64:
  "distance_matrix_length LLP64 \<lparr>rb = 0, re = 0, cb = 0, ce = 0\<rparr> 100000 = Inr (Some 704982704)
   \<and> fits_signed (ssize_bits LLP64) ((100000::int) * (100000 - 1) div 2)"
  by (simp add: distance_matrix_length_def as_c_signed_def fits_signed_def int_bits_def
      full_triangle_def wrap_signed_def)

text \<open>
  Where the buffer does have one slot for each pair of the block handed to the C
  routine: for the all-zero block, and for a block within the bounds that uses no
  sentinel.
\<close>

lemma distance_matrix_restricted_block:
  assumes "read_block block = Inr b" and "re b \<noteq> 0" and "ce b \<noteq> 0"
    and "0 \<le> rb b" "rb b \<le> re b" "re b \<le> n"
    and "0 \<le> cb b" "cb b \<le> ce b" "ce b \<le> n"
    and "py_len cur = Inr n" and "n < 2 ^ 31" and "restricted_length b < 2 ^ 31"
    and "DTWSettings_init defaults kw = Inr settings"
    and "convert_cur cur = Inr cur'"
    and "call_kernel cur' (restricted_length b) b settings = Inr calls"
  shows "distance_matrix P defaults cur block kw =
           (Resized (restricted_length b) # calls, Inr (restricted_length b))"
proof -
  let ?c = "restricted_length b"
  have "(2::int) ^ 31 \<le> 2 ^ (long_bits P - 1)" by (cases P) simp_all
  then have fit: "P = LP64 \<or> ?c < 2 ^ (long_bits P - 1)"
    using assms(12) by linarith
  have nz: "\<not> (re b = 0 \<and> ce b = 0)" using assms(2) by simp
  have len: "distance_matrix_length P b n = Inr (Some ?c)"
    using length_of_restricted_block[OF assms(4-9) nz assms(11) fit] .
  have c0: "0 \<le> ?c"
    unfolding restricted_length_def by (rule sum_row_count_nonneg)
  have ci: "as_c_signed int_bits ?c = Inr ?c"
    using c0 assms(12) by (simp add: as_c_signed_def fits_signed_def int_bits_def)
  show ?thesis
    by (simp add: distance_matrix_def assms(1,2,3,10,13,14,15) len ci)
qed

lemma one_slot_per_pair:
  assumes "py_len cur = Inr n" and "DTWSettings_init defaults kw = Inr settings"
    and "convert_cur cur = Inr (SeriesPointers ss)"
  shows "read_block block = Inr \<lparr>rb = 0, re = 0, cb = 0, ce = 0\<rparr> \<Longrightarrow> n \<le> 65536 \<Longrightarrow>
           \<exists>l. distance_matrix P defaults cur block kw
                  = ([Resized l,
                      Called_dtw_distances_ptrs ss l \<lparr>rb = 0, re = n, cb = 0, ce = n\<rparr> settings],
                     Inr l)
              \<and> l = int (length (brute_force_pairs \<lparr>rb = 0, re = n, cb = 0, ce = n\<rparr>))"
    and "read_block block = Inr b \<Longrightarrow> re b \<noteq> 0 \<Longrightarrow> ce b \<noteq> 0 \<Longrightarrow>
         0 \<le> rb b \<Longrightarrow> rb b \<le> re b \<Longrightarrow> re b \<le> n \<Longrightarrow>
         0 \<le> cb b \<Longrightarrow> cb b \<le> ce b \<Longrightarrow> ce b \<le> n \<Longrightarrow>
         n < 2 ^ 31 \<Longrightarrow> restricted_length b < 2 ^ 31 \<Longrightarrow>
           \<exists>l. distance_matrix P defaults cur block kw
                  = ([Resized l, Called_dtw_distances_ptrs ss l b settings], Inr l)
              \<and> l = int (length (brute_force_pairs b))"
proof -
  have n0: "0 \<le> n" using assms(1) by (rule py_len_nonneg)
  have k: "call_kernel (SeriesPointers ss) l blk settings
             = Inr [Called_dtw_distances_ptrs ss l blk settings]" for l blk
    by simp
  show "\<exists>l. distance_matrix P defaults cur block kw
                  = ([Resized l,
                      Called_dtw_distances_ptrs ss l \<lparr>rb = 0, re = n, cb = 0, ce = n\<rparr> settings],
                     Inr l)
              \<and> l = int (length (brute_force_pairs \<lparr>rb = 0, re = n, cb = 0, ce = n\<rparr>))"
    if "read_block block = Inr \<lparr>rb = 0, re = 0, cb = 0, ce = 0\<rparr>" and "n \<le> 65536"
    using distance_matrix_zero_block[OF assms(1) that(2) assms(2,3) k that(1), of P]
      full_triangle_enumerated[OF n0] by simp
  show "\<exists>l. distance_matrix P defaults cur block kw
                  = ([Resized l, Called_dtw_distances_ptrs ss l b settings], Inr l)
              \<and> l = int (length (brute_force_pairs b))"
    if "read_block block = Inr b" "re b \<noteq> 0" "ce b \<noteq> 0"
      "0 \<le> rb b" "rb b \<le> re b" "re b \<le> n" "0 \<le> cb b" "cb b \<le> ce b" "ce b \<le> n"
      "n < 2 ^ 31" "restricted_length b < 2 ^ 31"
    using distance_matrix_restricted_block[OF that(1-9) assms(1) that(10,11) assms(2,3) k, of P]
      restricted_length_enumerated[of b] by simp
qed

text \<open>
  Claim C4 asks that the buffer has one slot for each pair of the block after the
  sentinels are resolved. For the block \<open>((0, 0), (0, 5))\<close> over six sequences
  \<^verbatim>\<open>distance_matrix_length\<close> sees \<open>re = 0\<close> with \<open>ce = 5\<close>, runs the loop over the empty
  \<^verbatim>\<open>range(0, 0)\<close> and returns 0; \<^verbatim>\<open>distance_matrix\<close> then resolves \<open>re\<close> to 6 and hands
  the C routine the block \<open>(0, 6, 0, 5)\<close>, which has 10 pairs, with a buffer of length 0.
\<close>

theorem one_sentinel_buffer_too_short:
  "distance_matrix LP64 zero_settings
     (PyList [NdArray1 [1], NdArray1 [2], NdArray1 [3], NdArray1 [4], NdArray1 [5], NdArray1 [6]])
     (Block_pairs ((0, 0), (0, 5))) no_kwargs
   = ([Resized 0,
       Called_dtw_distances_ptrs [[1], [2], [3], [4], [5], [6]] 0
         \<lparr>rb = 0, re = 6, cb = 0, ce = 5\<rparr> zero_settings],
      Inr 0)
   \<and> length (brute_force_pairs \<lparr>rb = 0, re = 6, cb = 0, ce = 5\<rparr>) = 10"
  by (simp add: distance_matrix_def read_block_def as_c_signed_def fits_signed_def int_bits_def
      DTWSettings_init_def set_int_option_def set_real_option_def no_kwargs_def zero_settings_def
      distance_matrix_length_def py_range_def wrap_signed_def re_set_def ce_set_def
      brute_force_pairs_def upto.simps)

section \<open>Inputs of the wrong type\<close>

lemma series_of_elements_rejects:
  "\<not> list_all is_buffer xs \<Longrightarrow> series_of_elements xs = Inl AttributeError"
proof (induction xs)
  case Nil
  then show ?case by simp
next
  case (Cons x xs)
  show ?case
  proof (cases "is_buffer x")
    case True
    then have "\<not> list_all is_buffer xs" using Cons.prems by simp
    then have "series_of_elements xs = Inl AttributeError" by (rule Cons.IH)
    then show ?thesis using True by (cases x) simp_all
  next
    case False
    then show ?thesis by (cases x) simp_all
  qed
qed

lemma rejected_input:
  assumes "\<not> list_of_buffers cur" and "\<not> uniform_matrix cur" and "\<not> named_SeriesContainer cur"
  shows "py_len cur = Inl TypeError \<or> (\<exists>e. convert_cur cur = Inl e \<and> input_error e)"
proof (cases cur)
  case (PyList xs)
  then show ?thesis using assms(1) by (simp add: series_of_elements_rejects input_error_def)
next
  case (PyTuple xs)
  then show ?thesis using assms(1) by (simp add: series_of_elements_rejects input_error_def)
next
  case (PySet xs)
  then have "xs \<noteq> []" using assms(1) by auto
  then show ?thesis using PySet by (simp add: input_error_def)
qed (use assms in \<open>simp_all add: input_error_def\<close>)

lemma distance_matrix_len_error:
  assumes "py_len cur = Inl e"
  shows "\<exists>e'. distance_matrix P defaults cur block kw = ([], Inl e')"
  using assms by (auto simp: distance_matrix_def split: sum.splits)

lemma distance_matrix_convert_error:
  assumes "convert_cur cur = Inl e"
  shows "(\<exists>e'. snd (distance_matrix P defaults cur block kw) = Inl e')
       \<and> list_all (\<lambda>ev. \<not> is_kernel_call ev) (fst (distance_matrix P defaults cur block kw))"
  using assms by (auto simp: distance_matrix_def split: sum.splits option.splits)

text \<open>
  Claim C7, as the code has it. An input that is not a list, tuple or set of arrays, not
  a two-dimensional array and not an object of a class named \<^verbatim>\<open>SeriesContainer\<close> ends
  \<^verbatim>\<open>distance_matrix\<close> in an exception, and no C routine has been called before it:
  \<^verbatim>\<open>len(cur)\<close> raises \<^verbatim>\<open>TypeError\<close>, or the conversion of \<^verbatim>\<open>cur\<close> raises \<^verbatim>\<open>TypeError\<close>,
  \<^verbatim>\<open>ValueError\<close> or \<^verbatim>\<open>AttributeError\<close>.
\<close>

theorem unknown_input_rejected:
  assumes "\<not> list_of_buffers cur" and "\<not> uniform_matrix cur" and "\<not> named_SeriesContainer cur"
  shows "(\<exists>e. snd (distance_matrix P defaults cur block kw) = Inl e)
       \<and> list_all (\<lambda>ev. \<not> is_kernel_call ev) (fst (distance_matrix P defaults cur block kw))
       \<and> (py_len cur = Inl TypeError \<or> (\<exists>e. convert_cur cur = Inl e \<and> input_error e))"
proof -
  have r: "py_len cur = Inl TypeError \<or> (\<exists>e. convert_cur cur = Inl e \<and> input_error e)"
    using assms by (rule rejected_input)
  then show ?thesis
  proof
    assume "py_len cur = Inl TypeError"
    then obtain e' where "distance_matrix P defaults cur block kw = ([], Inl e')"
      using distance_matrix_len_error by blast
    then show ?thesis using r by simp
  next
    assume "\<exists>e. convert_cur cur = Inl e \<and> input_error e"
    then obtain e where "convert_cur cur = Inl e" by blast
    then show ?thesis using distance_matrix_convert_error r by blast
  qed
qed

theorem unknown_input_rejected_witness:
  "distance_matrix LP64 zero_settings (NdArray1 [1, 2, 3]) Block_none no_kwargs
     = ([Resized 3], Inl ValueError)
   \<and> distance_matrix LP64 zero_settings (PyList [NdArray1 [1], PyList []]) Block_none no_kwargs
     = ([Resized 1], Inl AttributeError)
   \<and> (\<exists>e. snd (distance_matrix LP64 zero_settings PyObject Block_none no_kwargs) = Inl e)"
proof -
  have a: "distance_matrix LP64 zero_settings (NdArray1 [1, 2, 3]) Block_none no_kwargs
     = ([Resized 3], Inl ValueError)"
    by (simp add: distance_matrix_def read_block_def as_c_signed_def fits_signed_def int_bits_def
      DTWSettings_init_def set_int_option_def set_real_option_def no_kwargs_def
      distance_matrix_length_def full_triangle_def wrap_signed_def)
  have b: "distance_matrix LP64 zero_settings (PyList [NdArray1 [1], PyList []]) Block_none no_kwargs
     = ([Resized 1], Inl AttributeError)"
    by (simp add: distance_matrix_def read_block_def as_c_signed_def fits_signed_def int_bits_def
      DTWSettings_init_def set_int_option_def set_real_option_def no_kwargs_def
      distance_matrix_length_def full_triangle_def wrap_signed_def)
  show ?thesis
    using a b unknown_input_rejected[of PyObject LP64 zero_settings Block_none no_kwargs]
    by simp
qed

text \<open>
  Claim C7 as stated fails: an object of a class named \<^verbatim>\<open>SeriesContainer\<close> is in neither
  of the two forms, and whatever its \<^verbatim>\<open>c_data()\<close> returns is taken without a check. When
  that is neither a \<^verbatim>\<open>DTWSeriesPointers\<close> nor a \<^verbatim>\<open>DTWSeriesMatrix\<close>, no exception is
  raised and the resized array is returned as it is.
\<close>

theorem series_container_not_checked:
  "\<not> list_of_buffers (SeriesContainer 3 PyObject)
   \<and> \<not> uniform_matrix (SeriesContainer 3 PyObject)
   \<and> distance_matrix LP64 zero_settings (SeriesContainer 3 PyObject) Block_none no_kwargs
       = ([Resized 3], Inr 3)"
  by (simp add: distance_matrix_def read_block_def as_c_signed_def fits_signed_def int_bits_def
      DTWSettings_init_def set_int_option_def set_real_option_def no_kwargs_def
      distance_matrix_length_def full_triangle_def wrap_signed_def re_set_def ce_set_def)

section \<open>The single distance\<close>

lemma cost_min_commute: "cost_min a b = cost_min b a"
  by (simp add: cost_min_def min.commute split: option.splits)

lemma cost_min_assoc: "cost_min (cost_min a b) c = cost_min a (cost_min b c)"
  by (simp add: cost_min_def min.assoc split: option.splits)

lemma cost_min_None [simp]: "cost_min None a = a" "cost_min a None = a"
  by (simp_all add: cost_min_def split: option.splits)

lemma cost_min_list_append:
  "cost_min_list (xs @ ys) = cost_min (cost_min_list xs) (cost_min_list ys)"
  by (induction xs) (simp_all add: cost_min_list_def cost_min_assoc)

lemma cost_min_list_swap: "cost_min_list (xs @ ys) = cost_min_list (ys @ xs)"
  by (simp add: cost_min_list_append cost_min_commute)

lemma elementwise_distance_commute: "elementwise_distance x y = elementwise_distance y x"
  by (simp add: elementwise_distance_def power2_commute)

lemma in_band_commute: "in_band st i j = in_band st j i"
  by (simp add: in_band_def abs_minus_commute)

lemma warp_cost_transpose: "warp_cost st s1 s2 i j = warp_cost st s2 s1 j i"
proof (induction st s1 s2 i j rule: warp_cost.induct)
  case (4 st s1 s2 i j)
  show ?case
  proof (cases "in_band st (Suc i) (Suc j)
      \<and> \<not> (max_step st \<noteq> 0 \<and> max_step st < elementwise_distance (s1 ! i) (s2 ! j))")
    case True
    then have b: "in_band st (Suc i) (Suc j)"
      and m: "\<not> (max_step st \<noteq> 0 \<and> max_step st < elementwise_distance (s1 ! i) (s2 ! j))"
      by blast+
    have up: "warp_cost st s1 s2 i (Suc j) = warp_cost st s2 s1 (Suc j) i"
      and left: "warp_cost st s1 s2 (Suc i) j = warp_cost st s2 s1 j (Suc i)"
      and diag: "warp_cost st s1 s2 i j = warp_cost st s2 s1 j i"
      using "4.IH"[OF b m] by blast+
    have b': "in_band st (Suc j) (Suc i)" using b by (simp add: in_band_commute)
    have m': "\<not> (max_step st \<noteq> 0 \<and> max_step st < elementwise_distance (s2 ! j) (s1 ! i))"
      using m by (simp add: elementwise_distance_commute)
    have "warp_cost st s1 s2 (Suc i) (Suc j) =
        cost_add (elementwise_distance (s1 ! i) (s2 ! j))
          (cost_min
             (cost_min (cost_add (penalty st) (warp_cost st s1 s2 i (Suc j)))
                       (cost_add (penalty st) (warp_cost st s1 s2 (Suc i) j)))
             (warp_cost st s1 s2 i j))"
      by (simp only: warp_cost.simps b m if_True if_False)
    also have "\<dots> =
        cost_add (elementwise_distance (s2 ! j) (s1 ! i))
          (cost_min
             (cost_min (cost_add (penalty st) (warp_cost st s2 s1 j (Suc i)))
                       (cost_add (penalty st) (warp_cost st s2 s1 (Suc j) i)))
             (warp_cost st s2 s1 j i))"
      by (simp add: up left diag elementwise_distance_commute
          cost_min_commute[of "cost_add (penalty st) (warp_cost st s2 s1 (Suc j) i)"])
    also have "\<dots> = warp_cost st s2 s1 (Suc j) (Suc i)"
      by (simp only: warp_cost.simps b' m' if_True if_False)
    finally show ?thesis .
  next
    case False
    then have "warp_cost st s1 s2 (Suc i) (Suc j) = None" by auto
    moreover have "warp_cost st s2 s1 (Suc j) (Suc i) = None"
      using False by (auto simp: in_band_commute elementwise_distance_commute)
    ultimately show ?thesis by simp
  qed
qed simp_all

lemma final_cost_transpose: "final_cost st s1 s2 = final_cost st s2 s1"
proof -
  have "final_cost st s1 s2 =
      cost_min_list
       (map (\<lambda>j. warp_cost st s2 s1 j (length s1)) [length s2 - nat (psi st)..<Suc (length s2)]
        @ map (\<lambda>i. warp_cost st s2 s1 (length s2) i) [length s1 - nat (psi st)..<Suc (length s1)])"
    by (simp only: final_cost_def warp_cost_transpose[of st s1 s2])
  also have "\<dots> = final_cost st s2 s1"
    unfolding final_cost_def by (rule cost_min_list_swap)
  finally show ?thesis .
qed

lemma dtw_distance_symmetric: "dtw_distance s1 s2 st = dtw_distance s2 s1 st"
  by (simp add: dtw_distance_def final_cost_transpose[of st s1 s2] abs_minus_commute)

text \<open>
  Claim C8. For all sequences \<open>a\<close> and \<open>b\<close> and any settings, \<^verbatim>\<open>distance(a, b)\<close> equals
  \<^verbatim>\<open>distance(b, a)\<close>, with the kernel of the specification in the place of the C function.
\<close>

theorem distance_symmetric:
  "distance dtw_distance defaults a b kw = distance dtw_distance defaults b a kw"
  by (cases "DTWSettings_init defaults kw")
    (auto simp: distance_def dtw_distance_symmetric)




end
